theory Spec2Isabelle
  imports Complex_Main
begin

section \<open>Conventions of the embedding\<close>

text \<open>
  The strategy layer is Python. Its \<open>float\<close> prices, rates and ratios are embedded as
  \<^typ>\<open>real\<close> (exact arithmetic, no rounding), its \<open>int\<close> counters and amounts as
  \<^typ>\<open>int\<close>. Every \<open>raise\<close> of the source is a value of \<open>py_error\<close>; a method
  that mutates \<open>self\<close> takes the object and returns the updated one. Logging calls have
  no effect on the state and are left out.
\<close>

datatype py_error = ZeroDivisionError | IndexError | KeyError | ValueError | AttributeError

section \<open>risk\_manager.py: RiskManager\<close>

text \<open>
  A Python \<open>dict\<close> with integer keys is an association list read through
  \<^const>\<open>map_of\<close>; \<open>sorted(d.keys())\<close> is the sorted list of its distinct keys.
\<close>

type_synonym ratio_table = "(int \<times> real) list"

definition sorted_keys :: "ratio_table \<Rightarrow> int list" where
  "sorted_keys d = sort (remdups (map fst d))"

record risk_manager =
  daily_loss_limit :: real
  max_tracking_stocks :: int
  max_position_stocks :: int
  max_single_position :: int
  position_ratios :: ratio_table
  rise_rate_ratios :: ratio_table
  total_profit :: real

text \<open>\<open>RiskManager.__init__\<close>: the default limits and ratio tables.\<close>

definition RiskManager_init :: risk_manager where
  "RiskManager_init =
     \<lparr> daily_loss_limit = - 200000,
       max_tracking_stocks = 100,
       max_position_stocks = 30,
       max_single_position = 500000,
       position_ratios = [(1, 1.0), (2, 1.0), (3, 0.8), (4, 0.5), (5, 0.0)],
       rise_rate_ratios = [(50, 1.0), (70, 0.8), (100, 0.5), (999, 0.3)],
       total_profit = 0 \<rparr>"

text \<open>
  \<open>get_day_ratio\<close>: the loop over the ascending keys returns the ratio of the first key
  with \<open>rise_days <= max_days\<close>, and 0.0 when the loop ends; the \<open>except\<close> clause
  turns any error into 0.0.
\<close>

fun day_ratio_loop :: "ratio_table \<Rightarrow> int list \<Rightarrow> int \<Rightarrow> py_error + real" where
  "day_ratio_loop d [] rise_days = Inr 0.0"
| "day_ratio_loop d (max_days # ks) rise_days =
     (if rise_days \<le> max_days
      then (case map_of d max_days of None \<Rightarrow> Inl KeyError | Some r \<Rightarrow> Inr r)
      else day_ratio_loop d ks rise_days)"

definition get_day_ratio :: "risk_manager \<Rightarrow> int \<Rightarrow> real" where
  "get_day_ratio rm rise_days =
     (case day_ratio_loop (position_ratios rm) (sorted_keys (position_ratios rm)) rise_days of
        Inl e \<Rightarrow> 0.0
      | Inr r \<Rightarrow> r)"

text \<open>
  \<open>get_rise_rate_ratio\<close>: strict \<open>rise_rate < max_rate\<close> over the ascending keys; past the
  last key the minimum of the table's values. \<open>min\<close> of an empty dict raises
  \<open>ValueError\<close>, and the \<open>except\<close> clause returns 1.0.
\<close>

definition min_values :: "ratio_table \<Rightarrow> py_error + real" where
  "min_values d =
     (case map (\<lambda>k. map_of d k) (remdups (map fst d)) of
        [] \<Rightarrow> Inl ValueError
      | v # vs \<Rightarrow> Inr (fold (\<lambda>x m. case x of None \<Rightarrow> m | Some y \<Rightarrow> min y m) vs
                      (case v of None \<Rightarrow> 0 | Some y \<Rightarrow> y)))"

fun rise_ratio_loop :: "ratio_table \<Rightarrow> int list \<Rightarrow> real \<Rightarrow> py_error + real" where
  "rise_ratio_loop d [] rise_rate = min_values d"
| "rise_ratio_loop d (max_rate # ks) rise_rate =
     (if rise_rate < real_of_int max_rate
      then (case map_of d max_rate of None \<Rightarrow> Inl KeyError | Some r \<Rightarrow> Inr r)
      else rise_ratio_loop d ks rise_rate)"

definition get_rise_rate_ratio :: "risk_manager \<Rightarrow> real \<Rightarrow> real" where
  "get_rise_rate_ratio rm rise_rate =
     (case rise_ratio_loop (rise_rate_ratios rm) (sorted_keys (rise_rate_ratios rm)) rise_rate of
        Inl e \<Rightarrow> 1.0
      | Inr r \<Rightarrow> r)"

definition get_position_ratio :: "int \<Rightarrow> real" where
  "get_position_ratio current_positions =
     (if current_positions \<ge> 8 then 0.5
      else if current_positions \<ge> 5 then 0.7
      else if current_positions \<ge> 3 then 0.9
      else 1.0)"

datatype risk_level = LOW | MEDIUM | HIGH

definition get_risk_level :: "int \<Rightarrow> real \<Rightarrow> real \<Rightarrow> risk_level" where
  "get_risk_level rise_days rise_rate final_ratio =
     (if rise_days \<ge> 5 \<or> rise_rate \<ge> 100 \<or> final_ratio \<le> 0.3 then HIGH
      else if rise_days \<ge> 3 \<or> rise_rate \<ge> 70 \<or> final_ratio \<le> 0.6 then MEDIUM
      else LOW)"

text \<open>
  \<open>check_entry_allowed\<close> returns \<open>(allowed, reason)\<close>. The reason is a formatted message
  in the source; here it is the rule that produced it, with the numbers the message
  shows.
\<close>

datatype entry_reason =
    RiseDaysExceeded int
  | MaxPositionsExceeded int int
  | MaxSinglePositionExceeded int int
  | DailyLossLimitReached real real
  | MinAmountNotMet int
  | EntryAllowed

definition check_entry_allowed ::
  "risk_manager \<Rightarrow> int \<Rightarrow> real \<Rightarrow> int \<Rightarrow> int \<Rightarrow> bool \<times> entry_reason" where
  "check_entry_allowed rm rise_days rise_rate amount current_positions =
     (if rise_days \<ge> 5 then (False, RiseDaysExceeded rise_days)
      else if current_positions \<ge> max_position_stocks rm
        then (False, MaxPositionsExceeded current_positions (max_position_stocks rm))
      else if amount > max_single_position rm
        then (False, MaxSinglePositionExceeded amount (max_single_position rm))
      else if total_profit rm \<le> daily_loss_limit rm
        then (False, DailyLossLimitReached (total_profit rm) (daily_loss_limit rm))
      else if amount < 50000 then (False, MinAmountNotMet amount)
      else (True, EntryAllowed))"

text \<open>Python's \<open>int(x)\<close> on a float truncates towards zero.\<close>

definition py_int :: "real \<Rightarrow> int" where
  "py_int x = (if x \<ge> 0 then \<lfloor>x\<rfloor> else \<lceil>x\<rceil>)"

record risk_assessment =
  ra_base_amount :: real
  ra_rise_days :: int
  ra_rise_rate :: real
  ra_current_positions :: int
  ra_day_ratio :: real
  ra_rise_ratio :: real
  ra_position_ratio :: real
  ra_final_ratio :: real
  ra_final_amount :: int
  ra_risk_level :: risk_level
  ra_allowed :: bool
  ra_reason :: entry_reason

definition calculate_position_size ::
  "risk_manager \<Rightarrow> real \<Rightarrow> int \<Rightarrow> real \<Rightarrow> int \<Rightarrow> risk_assessment" where
  "calculate_position_size rm base_amount rise_days rise_rate current_positions =
     (let day_ratio = get_day_ratio rm rise_days;
          rise_ratio = get_rise_rate_ratio rm rise_rate;
          position_ratio = get_position_ratio current_positions;
          final_ratio = day_ratio * rise_ratio * position_ratio;
          final_amount = py_int (base_amount * final_ratio);
          (allowed, reason) =
             check_entry_allowed rm rise_days rise_rate final_amount current_positions
      in \<lparr> ra_base_amount = base_amount,
           ra_rise_days = rise_days,
           ra_rise_rate = rise_rate,
           ra_current_positions = current_positions,
           ra_day_ratio = day_ratio,
           ra_rise_ratio = rise_ratio,
           ra_position_ratio = position_ratio,
           ra_final_ratio = final_ratio,
           ra_final_amount = final_amount,
           ra_risk_level = get_risk_level rise_days rise_rate final_ratio,
           ra_allowed = allowed,
           ra_reason = reason \<rparr>)"

section \<open>The pullback matrix\<close>

text \<open>
  \<open>TUMEPOK_MATRIX\<close> is imported from \<open>config.constants\<close>: a list of rows with the keys
  \<open>rise_min\<close>, \<open>rise_max\<close>, \<open>drop_min\<close>, \<open>drop_max\<close>. The functions below take it as
  an argument. \<open>matrix_scan\<close> is the \<open>for\<close> loop that stops at the first row whose closed
  range holds the rise rate; \<open>None\<close> is the loop running to its end (the \<open>else\<close> of the
  \<open>for\<close>). \<open>matrix_last\<close> is \<open>TUMEPOK_MATRIX[-1]\<close>, which raises on an empty list.
\<close>

record matrix_row =
  rise_min :: real
  rise_max :: real
  drop_min :: real
  drop_max :: real

type_synonym tumepok_matrix = "matrix_row list"

fun matrix_scan :: "tumepok_matrix \<Rightarrow> real \<Rightarrow> matrix_row option" where
  "matrix_scan [] r = None"
| "matrix_scan (matrix_row # rest) r =
     (if rise_min matrix_row \<le> r \<and> r \<le> rise_max matrix_row then Some matrix_row
      else matrix_scan rest r)"

definition matrix_last :: "tumepok_matrix \<Rightarrow> py_error + matrix_row" where
  "matrix_last m = (case m of [] \<Rightarrow> Inl IndexError | _ # _ \<Rightarrow> Inr (last m))"

section \<open>rise\_tracker.py: TrackingInfo\<close>

text \<open>
  The status strings \<open>"TRACKING"\<close>, \<open>"WAITING"\<close>, \<open>"READY"\<close>, \<open>"COMPLETED"\<close> and
  \<open>"STOPPED"\<close> are the constructors of \<open>status\<close>. The stage names \<open>1st\<close>, \<open>2nd\<close>,
  \<open>3rd\<close> (written in Korean in the source) and \<open>"WAIT"\<close> are the constructors of
  \<open>stage_name\<close>. Dates are day numbers; \<open>today\<close> is the value of \<open>datetime.now()\<close>
  at the call and is an argument.
\<close>

datatype status = TRACKING | WAITING | READY | COMPLETED | STOPPED

datatype stage_name = WAIT | Stage_1st | Stage_2nd | Stage_3rd

record daily_price =
  dp_date :: int
  dp_price :: real
  dp_is_high :: bool

record tracking_info =
  start_date :: int
  start_price :: real
  high_price :: real
  current_price :: real
  rise_days :: int
  rise_rate :: real
  daily_change_rate :: real
  drop_rate :: real
  target_drop_min :: real
  target_drop_max :: real
  target_drop_1st :: real
  target_drop_2nd :: real
  target_drop_3rd :: real
  status :: status
  waiting_days :: int
  bought_stages :: "stage_name set"
  daily_prices :: "daily_price list"

definition set_target_lines :: "matrix_row \<Rightarrow> tracking_info \<Rightarrow> tracking_info" where
  "set_target_lines row t =
     (let t1 = t\<lparr>target_drop_min := drop_min row, target_drop_max := drop_max row\<rparr>
      in t1\<lparr>target_drop_1st := target_drop_min t1,
            target_drop_2nd := (target_drop_min t1 + target_drop_max t1) / 2,
            target_drop_3rd := target_drop_max t1\<rparr>)"

text \<open>
  \<open>update_tumepok_calculation\<close>: the division by \<open>start_price\<close> raises when it is 0,
  before anything is written; an empty matrix raises after \<open>rise_rate\<close> is written. The
  result is the error, if any, and the object as the call leaves it.
\<close>

definition update_tumepok_calculation ::
  "tumepok_matrix \<Rightarrow> tracking_info \<Rightarrow> py_error option \<times> tracking_info" where
  "update_tumepok_calculation m t =
     (if start_price t = 0 then (Some ZeroDivisionError, t)
      else
        let t1 = t\<lparr>rise_rate := ((high_price t - start_price t) / start_price t) * 100\<rparr>
        in case matrix_scan m (rise_rate t1) of
             Some matrix_row \<Rightarrow> (None, set_target_lines matrix_row t1)
           | None \<Rightarrow>
               (case matrix_last m of
                  Inl e \<Rightarrow> (Some e, t1)
                | Inr last_row \<Rightarrow> (None, set_target_lines last_row t1)))"

definition add_daily_price :: "real \<Rightarrow> int \<Rightarrow> tracking_info \<Rightarrow> tracking_info" where
  "add_daily_price price date t =
     t\<lparr>daily_prices := daily_prices t @ [\<lparr>dp_date = date, dp_price = price, dp_is_high = False\<rparr>]\<rparr>"

text \<open>
  \<open>TrackingInfo.__init__\<close>: the fields at their initial values, the first daily price,
  then the target lines.
\<close>

definition TrackingInfo_init ::
  "tumepok_matrix \<Rightarrow> real \<Rightarrow> int \<Rightarrow> py_error option \<times> tracking_info" where
  "TrackingInfo_init m price date =
     update_tumepok_calculation m
       (add_daily_price price date
          \<lparr> start_date = date, start_price = price, high_price = price,
            current_price = price, rise_days = 1, rise_rate = 0.0,
            daily_change_rate = 0.0, drop_rate = 0.0,
            target_drop_min = 0.0, target_drop_max = 0.0,
            target_drop_1st = 0.0, target_drop_2nd = 0.0, target_drop_3rd = 0.0,
            status = TRACKING, waiting_days = 0, bought_stages = {}, daily_prices = [] \<rparr>)"

text \<open>\<open>should_start_waiting\<close>: the newest record of today decides.\<close>

fun today_record :: "daily_price list \<Rightarrow> int \<Rightarrow> daily_price option" where
  "today_record [] today = None"
| "today_record (price_info # rest) today =
     (if dp_date price_info = today then Some price_info else today_record rest today)"

definition should_start_waiting :: "int \<Rightarrow> tracking_info \<Rightarrow> bool" where
  "should_start_waiting today t =
     (if length (daily_prices t) < 2 then False
      else case today_record (rev (daily_prices t)) today of
             Some price_info \<Rightarrow> \<not> dp_is_high price_info
           | None \<Rightarrow> True)"

definition check_tumepok_entry :: "int \<Rightarrow> tracking_info \<Rightarrow> string \<times> tracking_info" where
  "check_tumepok_entry today t =
     (if rise_days t > 7 then (''MAX_DAYS_EXCEEDED'', t\<lparr>status := COMPLETED\<rparr>)
      else if drop_rate t \<ge> target_drop_min t then (''TUMEPOK_READY'', t\<lparr>status := READY\<rparr>)
      else if should_start_waiting today t
        then (''WAITING_STARTED'', t\<lparr>status := WAITING, waiting_days := 1\<rparr>)
      else (''CONTINUE'', t))"

definition check_waiting_period :: "tracking_info \<Rightarrow> string \<times> tracking_info" where
  "check_waiting_period t =
     (if current_price t > high_price t
        then (''TRACKING_RESUMED'', t\<lparr>status := TRACKING, waiting_days := 0\<rparr>)
      else if drop_rate t \<ge> target_drop_min t then (''TUMEPOK_READY'', t\<lparr>status := READY\<rparr>)
      else if waiting_days t \<ge> 3 then (''WAITING_COMPLETED'', t\<lparr>status := READY\<rparr>)
      else (''WAITING'', t))"

text \<open>
  The high-water-mark step of \<open>update_price\<close>: the result is \<open>high_updated\<close> and the
  object with \<open>high_price\<close> raised. An absent \<open>high_price\<close> argument is \<open>None\<close>.
\<close>

definition update_high :: "real \<Rightarrow> real option \<Rightarrow> tracking_info \<Rightarrow> bool \<times> tracking_info" where
  "update_high cur high_arg t =
     (case (case high_arg of None \<Rightarrow> None | Some h \<Rightarrow> if h > 0 then Some h else None) of
        Some h \<Rightarrow>
          (if h > high_price t then (True, t\<lparr>high_price := h\<rparr>)
           else if h = cur \<and> cur > high_price t then (True, t\<lparr>high_price := cur\<rparr>)
           else (False, t))
      | None \<Rightarrow>
          (if cur > high_price t then (True, t\<lparr>high_price := cur\<rparr>) else (False, t)))"

text \<open>The record of today's price: a new record on a new day, else the last one rewritten.\<close>

definition record_today :: "int \<Rightarrow> real \<Rightarrow> bool \<Rightarrow> tracking_info \<Rightarrow> tracking_info" where
  "record_today today cur high_updated t =
     (let t1 = (if daily_prices t = [] \<or> dp_date (last (daily_prices t)) \<noteq> today
                then add_daily_price cur today t
                else t\<lparr>daily_prices :=
                        butlast (daily_prices t) @ [(last (daily_prices t))\<lparr>dp_price := cur\<rparr>]\<rparr>)
      in if high_updated
         then t1\<lparr>daily_prices :=
                 butlast (daily_prices t1) @ [(last (daily_prices t1))\<lparr>dp_is_high := True\<rparr>]\<rparr>
         else t1)"

definition recompute_drop_rate :: "real \<Rightarrow> tracking_info \<Rightarrow> tracking_info" where
  "recompute_drop_rate cur t =
     (if start_price t > 0 then
        (let current_rise_from_start = ((cur - start_price t) / start_price t) * 100;
             t1 = t\<lparr>drop_rate := rise_rate t - current_rise_from_start\<rparr>
         in if drop_rate t1 < 0 then t1\<lparr>drop_rate := 0.0\<rparr> else t1)
      else t\<lparr>drop_rate := 0.0\<rparr>)"

text \<open>The last statements of \<open>update_price\<close>: the rule of the current status.\<close>

definition state_rules :: "int \<Rightarrow> tracking_info \<Rightarrow> string \<times> tracking_info" where
  "state_rules today t =
     (if status t = TRACKING then check_tumepok_entry today t
      else if status t = WAITING then check_waiting_period t
      else if status t = READY then (''READY'', t)
      else (''CONTINUE'', t))"

text \<open>The first statements of \<open>update_price\<close>: the price, the day change, the rise days.\<close>

definition set_tick_fields :: "int \<Rightarrow> real \<Rightarrow> real option \<Rightarrow> tracking_info \<Rightarrow> tracking_info" where
  "set_tick_fields today cur change_arg t =
     (let t1 = t\<lparr>current_price := cur\<rparr>;
          t2 = (case change_arg of None \<Rightarrow> t1 | Some c \<Rightarrow> t1\<lparr>daily_change_rate := c\<rparr>)
      in t2\<lparr>rise_days := (today - start_date t2) + 1\<rparr>)"

text \<open>
  \<open>TrackingInfo.update_price\<close>. The result is the returned string, or the error raised
  by \<open>update_tumepok_calculation\<close>, and the object as the call leaves it.
\<close>

definition update_price ::
  "tumepok_matrix \<Rightarrow> int \<Rightarrow> real \<Rightarrow> real option \<Rightarrow> real option \<Rightarrow> tracking_info
     \<Rightarrow> (py_error + string) \<times> tracking_info" where
  "update_price m today cur change_arg high_arg t =
     (let t3 = set_tick_fields today cur change_arg t;
          (high_updated, t4) = update_high cur high_arg t3;
          t5 = record_today today cur high_updated t4
      in if high_updated then
           (case update_tumepok_calculation m t5 of
              (Some e, t6) \<Rightarrow> (Inl e, t6)
            | (None, t6) \<Rightarrow> (Inr ''HIGH_UPDATED'', t6))
         else
           (case state_rules today (recompute_drop_rate cur t5) of (r, t7) \<Rightarrow> (Inr r, t7)))"

text \<open>
  \<open>TrackingInfo.get_buy_stage\<close>: outside \<open>READY\<close> it returns before the division; in
  \<open>READY\<close> the division by \<open>start_price\<close> raises when it is 0.
\<close>

definition get_buy_stage :: "real \<Rightarrow> tracking_info \<Rightarrow> py_error + stage_name" where
  "get_buy_stage cur t =
     (if status t \<noteq> READY then Inr WAIT
      else if start_price t = 0 then Inl ZeroDivisionError
      else
        let current_change_rate = ((cur - start_price t) / start_price t) * 100;
            drop_now = rise_rate t - current_change_rate;
            mid_drop = (target_drop_min t + target_drop_max t) / 2
        in if drop_now \<ge> target_drop_max t \<and> Stage_3rd \<notin> bought_stages t then Inr Stage_3rd
           else if drop_now \<ge> mid_drop \<and> Stage_2nd \<notin> bought_stages t then Inr Stage_2nd
           else if drop_now \<ge> target_drop_min t \<and> Stage_1st \<notin> bought_stages t then Inr Stage_1st
           else Inr WAIT)"

section \<open>tumepok\_engine.py: tracked symbols\<close>

text \<open>
  The engine keeps a tracked symbol as a plain \<open>dict\<close>. A key that the source reads with
  \<open>.get\<close> or \<open>setdefault\<close> may be absent and is an \<open>option\<close> field; a key read by
  subscript is a plain field. \<open>TRACKING_STATUS\<close> (from \<open>config.constants\<close>) maps the
  status names to the values stored in the dict; the stored value is embedded as the
  name.
\<close>

record engine_tracking =
  et_current_price :: real
  et_daily_change_rate :: "real option"
  et_base_price :: "real option"
  et_start_price :: "real option"
  et_rise_start_price :: "real option"
  et_high_price :: real
  et_rise_days :: int
  et_waiting_days :: "int option"
  et_status :: status
  et_drop_rate :: "real option"
  et_cumulative_rise_rate :: "real option"
  et_rise_rate :: "real option"
  et_bought_stages :: "stage_name set option"

text \<open>The dict returned by \<open>_get_target_drop_rates\<close>: the three buy lines and the stop line.\<close>

record target_drops =
  td_1st :: real
  td_2nd :: real
  td_3rd :: real
  td_stop :: real

definition drops_of_row :: "matrix_row \<Rightarrow> target_drops" where
  "drops_of_row row =
     (let dmin = drop_min row;
          dmax = drop_max row;
          drop_mid = dmin + (dmax - dmin) * 0.5;
          drop_3rd = dmin + (dmax - dmin) * 0.9
      in \<lparr>td_1st = dmin, td_2nd = drop_mid, td_3rd = drop_3rd, td_stop = dmax\<rparr>)"

definition get_target_drop_rates :: "tumepok_matrix \<Rightarrow> real \<Rightarrow> py_error + target_drops" where
  "get_target_drop_rates m cumulative_rise_rate =
     (case matrix_scan m cumulative_rise_rate of
        Some matrix_row \<Rightarrow> Inr (drops_of_row matrix_row)
      | None \<Rightarrow>
          (case matrix_last m of
             Inl e \<Rightarrow> Inl e
           | Inr last_row \<Rightarrow> Inr (drops_of_row last_row)))"

definition get_or :: "'a option \<Rightarrow> 'a \<Rightarrow> 'a" where
  "get_or v d = (case v of None \<Rightarrow> d | Some x \<Rightarrow> x)"

text \<open>
  \<open>_get_buy_stage\<close>: any exception inside is caught and gives \<open>WAIT\<close>. The
  \<open>current_price\<close> argument of the source is not read.
\<close>

definition engine_get_buy_stage ::
  "tumepok_matrix \<Rightarrow> (string \<rightharpoonup> engine_tracking) \<Rightarrow> string \<Rightarrow> stage_name" where
  "engine_get_buy_stage m tracking stock_code =
     (case tracking stock_code of
        None \<Rightarrow> WAIT
      | Some ti \<Rightarrow>
          (let drop_now = get_or (et_drop_rate ti) 0;
               cumulative_rise_rate =
                 get_or (et_cumulative_rise_rate ti) (get_or (et_rise_rate ti) 0);
               bought = get_or (et_bought_stages ti) {}
           in case get_target_drop_rates m cumulative_rise_rate of
                Inl e \<Rightarrow> WAIT
              | Inr td \<Rightarrow>
                  (if drop_now \<ge> td_1st td \<and> Stage_1st \<notin> bought then Stage_1st
                   else if drop_now \<ge> td_2nd td \<and> Stage_2nd \<notin> bought then Stage_2nd
                   else if drop_now \<ge> td_3rd td \<and> Stage_3rd \<notin> bought then Stage_3rd
                   else WAIT)))"

text \<open>\<open>_get_buy_stage_from_drop_rate\<close>, the sibling used by \<open>process_tumepok_signal\<close>.\<close>

definition get_buy_stage_from_drop_rate :: "real \<Rightarrow> target_drops \<Rightarrow> stage_name" where
  "get_buy_stage_from_drop_rate drop_rate_arg td =
     (if drop_rate_arg \<ge> td_3rd td then Stage_3rd
      else if drop_rate_arg \<ge> td_2nd td then Stage_2nd
      else if drop_rate_arg \<ge> td_1st td then Stage_1st
      else WAIT)"

section \<open>tumepok\_engine.py: positions and the stop-loss order\<close>

record buy_order =
  bo_price :: real
  bo_quantity :: int

record engine_position =
  ep_total_quantity :: "int option"
  ep_stop_loss_executed :: "bool option"
  ep_status :: "string option"
  ep_current_price :: real
  ep_weighted_avg_price :: real
  ep_profit_rate :: real
  ep_buy_orders :: "buy_order list option"
  ep_trailing_activated :: "bool option"
  ep_trailing_high :: "real option"
  ep_first_buy_price :: "real option"

text \<open>
  A market sell order as \<open>execute_stop_loss\<close> sends it: the symbol, the quantity and the
  reason (a Korean string in the source, written in English here). \<open>order_tr_req_queue\<close> is the queue when the engine has one; \<open>queue_manager\<close> is
  the list of requests sent through \<open>main_window.queue_manager\<close> when that exists.
\<close>

record sell_order =
  so_stock_code :: string
  so_quantity :: int
  so_reason :: string

record engine =
  tracking_stocks :: "string \<rightharpoonup> engine_tracking"
  positions :: "string \<rightharpoonup> engine_position"
  order_tr_req_queue :: "sell_order list option"
  queue_manager :: "sell_order list option"

text \<open>
  Sending the order: to the queue when there is one, else through the queue manager,
  whose \<open>send_order_request\<close> may raise (\<open>send_raises\<close>; the exception is caught and
  nothing is sent), else nowhere.
\<close>

definition send_stop_loss_order :: "bool \<Rightarrow> sell_order \<Rightarrow> engine \<Rightarrow> engine" where
  "send_stop_loss_order send_raises ord e =
     (case order_tr_req_queue e of
        Some q \<Rightarrow> e\<lparr>order_tr_req_queue := Some (q @ [ord])\<rparr>
      | None \<Rightarrow>
          (case queue_manager e of
             Some sent \<Rightarrow> if send_raises then e else e\<lparr>queue_manager := Some (sent @ [ord])\<rparr>
           | None \<Rightarrow> e))"

definition execute_stop_loss :: "bool \<Rightarrow> string \<Rightarrow> string \<Rightarrow> engine \<Rightarrow> engine" where
  "execute_stop_loss send_raises stock_code reason e =
     (case positions e stock_code of
        None \<Rightarrow> e\<lparr>tracking_stocks := (tracking_stocks e)(stock_code := None)\<rparr>
      | Some position \<Rightarrow>
          (let quantity = get_or (ep_total_quantity position) 0
           in if quantity \<le> 0 then e
              else if get_or (ep_stop_loss_executed position) False then e
              else
                (let position1 = position\<lparr>ep_stop_loss_executed := Some True\<rparr>;
                     e1 = send_stop_loss_order send_raises
                            \<lparr>so_stock_code = stock_code, so_quantity = quantity,
                             so_reason = reason\<rparr> e;
                     e2 = (case tracking_stocks e1 stock_code of
                             None \<Rightarrow> e1
                           | Some ti \<Rightarrow>
                               e1\<lparr>tracking_stocks :=
                                    (tracking_stocks e1)(stock_code \<mapsto> ti\<lparr>et_status := STOPPED\<rparr>)\<rparr>);
                     position2 = position1\<lparr>ep_status := Some ''SELLING''\<rparr>
                 in e2\<lparr>positions := (positions e2)(stock_code \<mapsto> position2)\<rparr>)))"

text \<open>The number of stop-loss orders that have left the engine for a symbol.\<close>

definition orders_sent :: "engine \<Rightarrow> string \<Rightarrow> nat" where
  "orders_sent e stock_code =
     length (filter (\<lambda>ord. so_stock_code ord = stock_code) (get_or (order_tr_req_queue e) []))
     + length (filter (\<lambda>ord. so_stock_code ord = stock_code) (get_or (queue_manager e) []))"

text \<open>\<open>position.get('stop_loss_executed', False)\<close> for the position of a symbol, if any.\<close>

definition stop_loss_executed :: "engine \<Rightarrow> string \<Rightarrow> bool" where
  "stop_loss_executed e stock_code =
     get_or (case positions e stock_code of None \<Rightarrow> None
             | Some position \<Rightarrow> ep_stop_loss_executed position) False"

text \<open>A sequence of \<open>execute_stop_loss\<close> calls for one symbol, one \<open>send_raises\<close> per call.\<close>

fun stop_loss_calls :: "bool list \<Rightarrow> string \<Rightarrow> string \<Rightarrow> engine \<Rightarrow> engine" where
  "stop_loss_calls [] stock_code reason e = e"
| "stop_loss_calls (send_raises # rest) stock_code reason e =
     stop_loss_calls rest stock_code reason (execute_stop_loss send_raises stock_code reason e)"

text \<open>
  \<open>update_tracking_stock\<close>. The high-water-mark step on the dict, then the drop rate
  against the high, the rise of the high over the base price, and the state rules.
  \<open>check_buy_conditions\<close> depends on collaborators outside these files and writes only
  \<open>bought_stages\<close>; the model stops before it and returns whether it is called. A missing
  symbol or an empty matrix raises; the \<open>except\<close> clause keeps what was written so far.
\<close>

definition engine_update_high ::
  "real \<Rightarrow> real option \<Rightarrow> engine_tracking \<Rightarrow> bool \<times> engine_tracking" where
  "engine_update_high cur high_arg ti =
     (case (case high_arg of None \<Rightarrow> None | Some h \<Rightarrow> if h > 0 then Some h else None) of
        Some h \<Rightarrow>
          (if h > et_high_price ti then (True, ti\<lparr>et_high_price := h\<rparr>)
           else if cur > h \<and> cur > et_high_price ti then (True, ti\<lparr>et_high_price := cur\<rparr>)
           else (False, ti))
      | None \<Rightarrow>
          (if cur > et_high_price ti then (True, ti\<lparr>et_high_price := cur\<rparr>) else (False, ti)))"

definition engine_rates :: "real \<Rightarrow> engine_tracking \<Rightarrow> engine_tracking" where
  "engine_rates cur ti =
     (let base_price = get_or (et_base_price ti) (get_or (et_start_price ti) 0);
          final_high_price = et_high_price ti;
          drop_now = (if final_high_price > 0
                  then (final_high_price - cur) / final_high_price * 100 else 0);
          current_rise_rate = (if base_price > 0
                  then (final_high_price - base_price) / base_price * 100 else 0)
      in ti\<lparr>et_drop_rate := Some drop_now, et_cumulative_rise_rate := Some current_rise_rate\<rparr>)"

definition put_tracking :: "string \<Rightarrow> engine_tracking \<Rightarrow> engine \<Rightarrow> engine" where
  "put_tracking stock_code ti e = e\<lparr>tracking_stocks := (tracking_stocks e)(stock_code \<mapsto> ti)\<rparr>"

text \<open>
  The first half of \<open>update_tracking_stock\<close>: the price, the high-water mark with its
  reset of \<open>waiting_days\<close> and the status, and the two rates.
\<close>

definition engine_track_high ::
  "real \<Rightarrow> real option \<Rightarrow> real option \<Rightarrow> engine_tracking \<Rightarrow> engine_tracking" where
  "engine_track_high cur change_arg high_arg ti0 =
     (let ti1 = ti0\<lparr>et_current_price := cur\<rparr>;
          ti2 = (case change_arg of None \<Rightarrow> ti1
                 | Some c \<Rightarrow> ti1\<lparr>et_daily_change_rate := Some c\<rparr>);
          (high_updated, ti3) = engine_update_high cur high_arg ti2;
          ti4 = (if high_updated
                 then ti3\<lparr>et_rise_days := et_rise_days ti3 + 1,
                          et_waiting_days := Some 0, et_status := TRACKING\<rparr>
                 else ti3)
      in engine_rates cur ti4)"

text \<open>
  The second half: the stop line, the buy range and the waiting rule, on the dict \<open>ti5\<close>
  that the first half leaves (the same object as the entry of \<open>tracking_stocks\<close>).
\<close>

definition engine_state_rules ::
  "tumepok_matrix \<Rightarrow> bool \<Rightarrow> string \<Rightarrow> engine_tracking \<Rightarrow> engine \<Rightarrow> bool \<times> engine" where
  "engine_state_rules m send_raises stock_code ti5 e =
     (let drop_now = get_or (et_drop_rate ti5) 0;
          cumulative_rise_rate = get_or (et_cumulative_rise_rate ti5) 0
      in case get_target_drop_rates m cumulative_rise_rate of
           Inl err \<Rightarrow> (False, put_tracking stock_code ti5 e)
         | Inr td \<Rightarrow>
             (if drop_now > td_stop td then
                (if get_or (et_bought_stages ti5) {} \<noteq> {} then
                   (if \<not> get_or (case positions e stock_code of None \<Rightarrow> None
                                 | Some position \<Rightarrow> ep_stop_loss_executed position) False
                    then (False, execute_stop_loss send_raises stock_code ''max drop exceeded''
                                   (put_tracking stock_code ti5 e))
                    else (False, put_tracking stock_code ti5 e))
                 else (False, put_tracking stock_code (ti5\<lparr>et_status := STOPPED\<rparr>) e))
              else if td_1st td \<le> drop_now \<and> drop_now \<le> td_stop td then
                (let e1 = put_tracking stock_code (ti5\<lparr>et_status := READY\<rparr>) e
                 in (engine_get_buy_stage m (tracking_stocks e1) stock_code \<noteq> WAIT, e1))
              else if et_status ti5 = TRACKING then
                (let ti6 = ti5\<lparr>et_status := WAITING,
                               et_waiting_days := Some (get_or (et_waiting_days ti5) 0 + 1)\<rparr>
                 in if get_or (et_waiting_days ti6) 0 \<ge> 3 then
                      (let e1 = put_tracking stock_code (ti6\<lparr>et_status := READY\<rparr>) e
                       in (engine_get_buy_stage m (tracking_stocks e1) stock_code \<noteq> WAIT, e1))
                    else (False, put_tracking stock_code ti6 e))
              else (False, put_tracking stock_code ti5 e)))"

definition update_tracking_stock ::
  "tumepok_matrix \<Rightarrow> bool \<Rightarrow> string \<Rightarrow> real \<Rightarrow> real option \<Rightarrow> real option \<Rightarrow> engine
     \<Rightarrow> bool \<times> engine" where
  "update_tracking_stock m send_raises stock_code cur change_arg high_arg e =
     (case tracking_stocks e stock_code of
        None \<Rightarrow> (False, e)
      | Some ti0 \<Rightarrow>
          engine_state_rules m send_raises stock_code
            (engine_track_high cur change_arg high_arg ti0) e)"

section \<open>position\_manager.py: PositionInfo\<close>

text \<open>
  The sell signals \<open>"STOP_LOSS"\<close> and \<open>"TRAILING_SELL"\<close> (in the engine the values of
  \<open>SELL_REASONS\<close> under these keys) are the constructors of \<open>sell_signal\<close>; no signal is
  \<open>None\<close>.
\<close>

datatype sell_signal = STOP_LOSS | TRAILING_SELL

record buy_stage_info =
  bs_stage :: stage_name
  bs_price :: real
  bs_quantity :: int
  bs_amount :: real

record position_info =
  buy_stages :: "buy_stage_info list"
  total_quantity :: int
  total_amount :: real
  weighted_avg_price :: real
  pos_current_price :: real
  profit_rate :: real
  profit_amount :: real
  trailing_activated :: bool
  trailing_high :: real
  trailing_trigger_rate :: real
  trailing_sell_rate :: real
  stop_loss_rate :: real
  pos_status :: string

definition PositionInfo_init :: position_info where
  "PositionInfo_init =
     \<lparr> buy_stages = [],
       total_quantity = 0,
       total_amount = 0.0,
       weighted_avg_price = 0.0,
       pos_current_price = 0.0,
       profit_rate = 0.0,
       profit_amount = 0.0,
       trailing_activated = False,
       trailing_high = 0.0,
       trailing_trigger_rate = 2.0,
       trailing_sell_rate = - 1.0,
       stop_loss_rate = - 2.0,
       pos_status = ''HOLDING'' \<rparr>"

text \<open>
  \<open>calculate_weighted_avg_price\<close>: the guard tests \<open>total_amount\<close>; the division by
  \<open>total_quantity\<close> raises when that is 0.
\<close>

definition calculate_weighted_avg_price :: "position_info \<Rightarrow> py_error option \<times> position_info" where
  "calculate_weighted_avg_price p =
     (if total_amount p > 0 then
        (if total_quantity p = 0 then (Some ZeroDivisionError, p)
         else (None, p\<lparr>weighted_avg_price := total_amount p / real_of_int (total_quantity p)\<rparr>))
      else (None, p\<lparr>weighted_avg_price := 0.0\<rparr>))"

definition add_buy_stage :: "buy_stage_info \<Rightarrow> position_info \<Rightarrow> py_error option \<times> position_info" where
  "add_buy_stage stage_info p =
     calculate_weighted_avg_price
       (p\<lparr>buy_stages := buy_stages p @ [stage_info],
          total_quantity := total_quantity p + bs_quantity stage_info,
          total_amount := total_amount p + bs_amount stage_info\<rparr>)"

text \<open>A sequence of \<open>add_buy_stage\<close> calls; the first exception ends it.\<close>

fun add_buy_stages :: "buy_stage_info list \<Rightarrow> position_info \<Rightarrow> py_error option \<times> position_info" where
  "add_buy_stages [] p = (None, p)"
| "add_buy_stages (stage_info # rest) p =
     (case add_buy_stage stage_info p of
        (Some e, p1) \<Rightarrow> (Some e, p1)
      | (None, p1) \<Rightarrow> add_buy_stages rest p1)"

definition update_trailing_stop :: "position_info \<Rightarrow> position_info" where
  "update_trailing_stop p =
     (let p1 = (if \<not> trailing_activated p \<and> profit_rate p \<ge> trailing_trigger_rate p
                then p\<lparr>trailing_activated := True, trailing_high := pos_current_price p\<rparr>
                else p)
      in if trailing_activated p1 \<and> pos_current_price p1 > trailing_high p1
         then p1\<lparr>trailing_high := pos_current_price p1\<rparr>
         else p1)"

text \<open>
  \<open>update_current_price\<close>. \<open>TumepokCalculator.calculate_profit_rate\<close> is imported from
  \<open>utils.calculator\<close>; it is the argument \<open>calc\<close>.
\<close>

definition update_current_price ::
  "(real \<Rightarrow> real \<Rightarrow> real) \<Rightarrow> real \<Rightarrow> position_info \<Rightarrow> position_info" where
  "update_current_price calc cur p =
     (let p1 = p\<lparr>pos_current_price := cur\<rparr>;
          p2 = (if weighted_avg_price p1 > 0
                then p1\<lparr>profit_rate := calc (weighted_avg_price p1) cur,
                        profit_amount :=
                          (cur - weighted_avg_price p1) * real_of_int (total_quantity p1)\<rparr>
                else p1)
      in update_trailing_stop p2)"

text \<open>\<open>PositionInfo.check_sell_conditions\<close>; the division by \<open>trailing_high\<close> raises at 0.\<close>

definition check_sell_conditions :: "position_info \<Rightarrow> py_error + sell_signal option" where
  "check_sell_conditions p =
     (if profit_rate p \<le> stop_loss_rate p then Inr (Some STOP_LOSS)
      else if trailing_activated p then
        (if trailing_high p = 0 then Inl ZeroDivisionError
         else
           (let trailing_drop_rate =
                  ((trailing_high p - pos_current_price p) / trailing_high p) * 100
            in if trailing_drop_rate \<ge> \<bar>trailing_sell_rate p\<bar> then Inr (Some TRAILING_SELL)
               else Inr None))
      else Inr None)"

text \<open>
  \<open>PositionManager.update_position\<close> for a symbol that has a position: the price update,
  then the sell conditions; an exception is caught and gives no signal.
\<close>

definition update_position ::
  "(real \<Rightarrow> real \<Rightarrow> real) \<Rightarrow> real \<Rightarrow> position_info \<Rightarrow> sell_signal option \<times> position_info" where
  "update_position calc cur p =
     (let p1 = update_current_price calc cur p
      in (case check_sell_conditions p1 of Inl e \<Rightarrow> None | Inr sig \<Rightarrow> sig, p1))"

text \<open>The signals and states that a sequence of price updates produces, in order.\<close>

fun position_trace ::
  "(real \<Rightarrow> real \<Rightarrow> real) \<Rightarrow> real list \<Rightarrow> position_info
     \<Rightarrow> (sell_signal option \<times> position_info) list" where
  "position_trace calc [] p = []"
| "position_trace calc (cur # rest) p =
     (let r = update_position calc cur p in r # position_trace calc rest (snd r))"

section \<open>tumepok\_engine.py: sell conditions of a position\<close>

text \<open>
  The configuration object is outside these files. Its trailing rates and
  \<open>calculate_target_drop_range(rise_rate).get('max_drop')\<close> are the fields of
  \<open>engine_config\<close>; \<open>self.config\<close> may be \<open>None\<close>.
\<close>

record engine_config =
  cfg_trailing_trigger_rate :: real
  cfg_trailing_sell_rate :: real
  cfg_max_drop :: "real \<Rightarrow> real option"

text \<open>The stop-loss part of \<open>TumepokEngine.check_sell_conditions\<close>.\<close>

definition stop_loss_signal ::
  "engine_config option \<Rightarrow> engine_tracking option \<Rightarrow> engine_position \<Rightarrow> bool" where
  "stop_loss_signal cfg tracking_info position =
     (let cur = ep_current_price position;
          current_stage = length (get_or (ep_buy_orders position) [])
      in case tracking_info of
           Some ti \<Rightarrow>
             (let rise = get_or (et_cumulative_rise_rate ti) 0;
                  max_drop_rate = (case cfg of None \<Rightarrow> 25.0
                                   | Some c \<Rightarrow> get_or (cfg_max_drop c rise) 25.0);
                  rise_start_price =
                    get_or (et_rise_start_price ti) (get_or (ep_first_buy_price position) cur)
              in rise_start_price > 0 \<and>
                 ((rise_start_price - cur) / rise_start_price) * 100 > max_drop_rate)
         | None \<Rightarrow> current_stage \<ge> 3 \<and> ep_profit_rate position \<le> - 2.0)"

text \<open>
  The trailing part: activation, the high, the trailing sell. Without a configuration
  the call on \<open>None\<close> raises, and a \<open>trailing_high\<close> of 0 raises in the division; the
  \<open>except\<close> clause returns no signal and keeps what was written.
\<close>

definition trailing_stop_check ::
  "engine_config option \<Rightarrow> engine_position \<Rightarrow> sell_signal option \<times> engine_position" where
  "trailing_stop_check cfg position =
     (case cfg of
        None \<Rightarrow> (None, position)
      | Some c \<Rightarrow>
          (let cur = ep_current_price position;
               p1 = (if \<not> get_or (ep_trailing_activated position) False
                        \<and> ep_profit_rate position \<ge> cfg_trailing_trigger_rate c
                     then position\<lparr>ep_trailing_activated := Some True,
                                  ep_trailing_high := Some cur\<rparr>
                     else position)
           in if get_or (ep_trailing_activated p1) False then
                (let p2 = (if cur > get_or (ep_trailing_high p1) cur
                           then p1\<lparr>ep_trailing_high := Some cur\<rparr> else p1);
                     th = (if cur > get_or (ep_trailing_high p1) cur then cur
                           else get_or (ep_trailing_high p1) cur)
                 in if th = 0 then (None, p2)
                    else if ((th - cur) / th) * 100 \<ge> \<bar>cfg_trailing_sell_rate c\<bar>
                      then (Some TRAILING_SELL, p2)
                    else (None, p2))
              else (None, p1)))"

definition engine_check_sell_conditions ::
  "engine_config option \<Rightarrow> engine_tracking option \<Rightarrow> engine_position
     \<Rightarrow> sell_signal option \<times> engine_position" where
  "engine_check_sell_conditions cfg tracking_info position =
     (if stop_loss_signal cfg tracking_info position then (Some STOP_LOSS, position)
      else trailing_stop_check cfg position)"

section \<open>The lookup as the specification words it\<close>

text \<open>
  Section 4.1 of the specification: the lookup returns the first row whose range
  \<open>[riseMin, riseMax]\<close> contains the rise percentage, and the last row when none does.
  \<open>RiseMatrix_lookup\<close> is written from these words, to be compared with the loops of the
  source.
\<close>

definition RiseMatrix_lookup :: "tumepok_matrix \<Rightarrow> real \<Rightarrow> matrix_row" where
  "RiseMatrix_lookup m r =
     (case find (\<lambda>row. rise_min row \<le> r \<and> r \<le> rise_max row) m of
        Some row \<Rightarrow> row
      | None \<Rightarrow> last m)"

section \<open>Concrete inputs\<close>

text \<open>
  The one-row matrix of scenario A of the specification: rises of 40 to 60 percent call
  for a pullback of 8 to 15 percent.
\<close>

definition scenario_matrix :: tumepok_matrix where
  "scenario_matrix = [\<lparr>rise_min = 40, rise_max = 60, drop_min = 8, drop_max = 15\<rparr>]"

text \<open>
  A symbol tracked by the engine in the same episode: start 10,000, high 14,500, no tier
  bought, no position, an order queue.
\<close>

definition scenario_tracking :: engine_tracking where
  "scenario_tracking =
     \<lparr> et_current_price = 14500, et_daily_change_rate = None,
       et_base_price = Some 10000, et_start_price = Some 10000,
       et_rise_start_price = None, et_high_price = 14500, et_rise_days = 1,
       et_waiting_days = Some 0, et_status = TRACKING, et_drop_rate = Some 0,
       et_cumulative_rise_rate = Some 45, et_rise_rate = Some 45,
       et_bought_stages = Some {} \<rparr>"

definition scenario_engine :: engine where
  "scenario_engine =
     \<lparr> tracking_stocks = [''A'' \<mapsto> scenario_tracking],
       positions = Map.empty,
       order_tr_req_queue = Some [],
       queue_manager = None \<rparr>"

text \<open>
  The tracker's object for the same episode: created at 10,000 on day 0, a tick at
  14,500 the same day (\<open>tracked_high\<close>), then a tick at 14,400 on day 1
  (\<open>tracked_waiting\<close>).
\<close>

definition tracked_high :: tracking_info where
  "tracked_high = snd (update_price scenario_matrix 0 14500 None None
                         (snd (TrackingInfo_init scenario_matrix 10000 0)))"

definition tracked_waiting :: tracking_info where
  "tracked_waiting = snd (update_price scenario_matrix 1 14400 None None tracked_high)"

text \<open>
  The same symbol after the first tier was bought: the tier is recorded and the engine
  holds a position of 10 shares.
\<close>

definition holding_engine :: engine where
  "holding_engine =
     \<lparr> tracking_stocks = [''A'' \<mapsto> scenario_tracking\<lparr>et_bought_stages := Some {Stage_1st}\<rparr>],
       positions = [''A'' \<mapsto>
         \<lparr> ep_total_quantity = Some 10, ep_stop_loss_executed = None, ep_status = None,
           ep_current_price = 13300, ep_weighted_avg_price = 13300, ep_profit_rate = 0,
           ep_buy_orders = Some [\<lparr>bo_price = 13300, bo_quantity = 10\<rparr>],
           ep_trailing_activated = Some False, ep_trailing_high = Some 13300,
           ep_first_buy_price = None \<rparr>],
       order_tr_req_queue = Some [],
       queue_manager = None \<rparr>"

text \<open>
  Modelled from the spec: \<open>TumepokCalculator.calculate_profit_rate\<close> is imported from
  \<open>utils.calculator\<close>, which is not among the source files. Section 4.5 gives
  profitRatePct = (currentPrice - weightedAvgPrice) / weightedAvgPrice * 100.
\<close>

definition spec_profit_rate :: "real \<Rightarrow> real \<Rightarrow> real" where
  "spec_profit_rate avg cur = (cur - avg) / avg * 100"

text \<open>A \<open>PositionInfo\<close> with one stage: 10 shares at 100, an amount of 1,000.\<close>

definition holding_position :: position_info where
  "holding_position =
     snd (add_buy_stage \<lparr>bs_stage = Stage_1st, bs_price = 100, bs_quantity = 10,
                          bs_amount = 1000\<rparr> PositionInfo_init)"

text \<open>
  A configuration with the trailing rates that the comments of
  \<open>check_sell_conditions\<close> name (trigger 2.0, sell -1.0) and no maximum drop of its own,
  and the engine's position of \<open>holding_engine\<close> at a price of 13,700 with a profit rate
  of 3 percent.
\<close>

definition scenario_config :: engine_config where
  "scenario_config =
     \<lparr> cfg_trailing_trigger_rate = 2.0, cfg_trailing_sell_rate = - 1.0,
       cfg_max_drop = (\<lambda>rise. None) \<rparr>"

definition profitable_position :: engine_position where
  "profitable_position =
     \<lparr> ep_total_quantity = Some 10, ep_stop_loss_executed = None, ep_status = None,
       ep_current_price = 13700, ep_weighted_avg_price = 13300, ep_profit_rate = 3,
       ep_buy_orders = Some [\<lparr>bo_price = 13300, bo_quantity = 10\<rparr>],
       ep_trailing_activated = Some False, ep_trailing_high = Some 13300,
       ep_first_buy_price = None \<rparr>"

section \<open>Theorems\<close>

subsection \<open>Risk sizing tables\<close>

lemma sorted_keys_position_ratios:
  "sorted_keys (position_ratios RiskManager_init) = [1, 2, 3, 4, 5]"
  by (simp add: sorted_keys_def RiskManager_init_def)

lemma sorted_keys_rise_rate_ratios:
  "sorted_keys (rise_rate_ratios RiskManager_init) = [50, 70, 100, 999]"
  by (simp add: sorted_keys_def RiskManager_init_def)

text \<open>
  C8. Under the default ratio tables the day ratio is 0.8 at 3 days, 0.5 at 4 days and
  0.0 at 5 days, and the rise ratio is 1.0 at 49, 0.8 at 50, 0.5 at 70 and 0.3 at 100:
  the first ascending bound that matches wins, \<open><=\<close> for days and strict \<open><\<close> for the
  rise percentage.
\<close>

theorem default_ratio_boundaries:
  "get_day_ratio RiskManager_init 3 = 0.8 \<and>
   get_day_ratio RiskManager_init 4 = 0.5 \<and>
   get_day_ratio RiskManager_init 5 = 0.0 \<and>
   get_rise_rate_ratio RiskManager_init 49 = 1.0 \<and>
   get_rise_rate_ratio RiskManager_init 50 = 0.8 \<and>
   get_rise_rate_ratio RiskManager_init 70 = 0.5 \<and>
   get_rise_rate_ratio RiskManager_init 100 = 0.3"
  unfolding get_day_ratio_def get_rise_rate_ratio_def
    sorted_keys_position_ratios sorted_keys_rise_rate_ratios
  by (simp add: RiskManager_init_def)

subsection \<open>Admission gate\<close>

text \<open>
  C7. The admission gate rejects in a fixed order: five or more rise days; then the
  position count at the maximum; then an amount above the single-position maximum; then
  a daily profit at or below the loss limit; then an amount under 50,000. The first rule
  that fails gives the reason, the gate allows only when none fails, and
  \<open>calculate_position_size\<close> reports the gate's answer for its final amount.
\<close>

theorem check_entry_allowed_order:
  "(days \<ge> 5 \<longrightarrow>
      check_entry_allowed rm days rate amount cp = (False, RiseDaysExceeded days)) \<and>
   (days < 5 \<and> cp \<ge> max_position_stocks rm \<longrightarrow>
      check_entry_allowed rm days rate amount cp
        = (False, MaxPositionsExceeded cp (max_position_stocks rm))) \<and>
   (days < 5 \<and> cp < max_position_stocks rm \<and> amount > max_single_position rm \<longrightarrow>
      check_entry_allowed rm days rate amount cp
        = (False, MaxSinglePositionExceeded amount (max_single_position rm))) \<and>
   (days < 5 \<and> cp < max_position_stocks rm \<and> amount \<le> max_single_position rm
      \<and> total_profit rm \<le> daily_loss_limit rm \<longrightarrow>
      check_entry_allowed rm days rate amount cp
        = (False, DailyLossLimitReached (total_profit rm) (daily_loss_limit rm))) \<and>
   (days < 5 \<and> cp < max_position_stocks rm \<and> amount \<le> max_single_position rm
      \<and> total_profit rm > daily_loss_limit rm \<and> amount < 50000 \<longrightarrow>
      check_entry_allowed rm days rate amount cp = (False, MinAmountNotMet amount)) \<and>
   (fst (check_entry_allowed rm days rate amount cp) \<longleftrightarrow>
      days < 5 \<and> cp < max_position_stocks rm \<and> amount \<le> max_single_position rm
      \<and> total_profit rm > daily_loss_limit rm \<and> amount \<ge> 50000) \<and>
   (ra_allowed (calculate_position_size rm base days rate cp),
    ra_reason (calculate_position_size rm base days rate cp))
     = check_entry_allowed rm days rate
         (ra_final_amount (calculate_position_size rm base days rate cp)) cp"
  by (simp add: check_entry_allowed_def calculate_position_size_def Let_def split: prod.splits)

theorem check_entry_allowed_order_witness:
  "check_entry_allowed RiskManager_init 5 45 600000 30 = (False, RiseDaysExceeded 5) \<and>
   check_entry_allowed RiskManager_init 4 45 600000 30 = (False, MaxPositionsExceeded 30 30) \<and>
   check_entry_allowed RiskManager_init 4 45 600000 3
     = (False, MaxSinglePositionExceeded 600000 500000) \<and>
   check_entry_allowed (RiskManager_init\<lparr>total_profit := - 200000\<rparr>) 4 45 40000 3
     = (False, DailyLossLimitReached (- 200000) (- 200000)) \<and>
   check_entry_allowed RiskManager_init 4 45 40000 3 = (False, MinAmountNotMet 40000) \<and>
   fst (check_entry_allowed RiskManager_init 4 45 50000 3)"
  using check_entry_allowed_order [where rm=RiskManager_init and days=5 and rate=45 and amount=600000 and cp=30 and base=0]
    check_entry_allowed_order [where rm=RiskManager_init and days=4 and rate=45 and amount=600000 and cp=30 and base=0]
    check_entry_allowed_order [where rm=RiskManager_init and days=4 and rate=45 and amount=600000 and cp=3 and base=0]
    check_entry_allowed_order [where rm="RiskManager_init\<lparr>total_profit := - 200000\<rparr>" and days=4 and rate=45 and amount=40000 and cp=3 and base=0]
    check_entry_allowed_order [where rm=RiskManager_init and days=4 and rate=45 and amount=40000 and cp=3 and base=0]
    check_entry_allowed_order [where rm=RiskManager_init and days=4 and rate=45 and amount=50000 and cp=3 and base=0]
  by (simp add: RiskManager_init_def)

subsection \<open>Matrix lookup and tier lines\<close>

lemma matrix_scan_find:
  "matrix_scan m r = find (\<lambda>row. rise_min row \<le> r \<and> r \<le> rise_max row) m"
  by (induction m) auto

lemma matrix_last_nonempty: "m \<noteq> [] \<Longrightarrow> matrix_last m = Inr (last m)"
  by (cases m) (simp_all add: matrix_last_def)

lemma get_target_drop_rates_lookup:
  "m \<noteq> [] \<Longrightarrow> get_target_drop_rates m r = Inr (drops_of_row (RiseMatrix_lookup m r))"
  by (simp add: get_target_drop_rates_def RiseMatrix_lookup_def matrix_scan_find
      matrix_last_nonempty split: option.splits)

lemma update_tumepok_calculation_lookup:
  assumes "m \<noteq> []" and "start_price t \<noteq> 0"
  shows "update_tumepok_calculation m t =
           (None, set_target_lines
                    (RiseMatrix_lookup m (((high_price t - start_price t) / start_price t) * 100))
                    (t\<lparr>rise_rate := ((high_price t - start_price t) / start_price t) * 100\<rparr>))"
  using assms
  by (simp add: update_tumepok_calculation_def RiseMatrix_lookup_def matrix_scan_find
      matrix_last_nonempty Let_def split: option.splits)

lemma RiseMatrix_lookup_in_set: "m \<noteq> [] \<Longrightarrow> RiseMatrix_lookup m r \<in> set m"
  by (auto simp: RiseMatrix_lookup_def find_Some_iff split: option.splits)

lemma TrackingInfo_init_scenario:
  "TrackingInfo_init scenario_matrix 10000 0 =
     (None, \<lparr> start_date = 0, start_price = 10000, high_price = 10000,
            current_price = 10000, rise_days = 1, rise_rate = 0,
            daily_change_rate = 0, drop_rate = 0,
            target_drop_min = 8, target_drop_max = 15,
            target_drop_1st = 8, target_drop_2nd = 23 / 2, target_drop_3rd = 15,
            status = TRACKING, waiting_days = 0, bought_stages = {},
            daily_prices = [\<lparr>dp_date = 0, dp_price = 10000, dp_is_high = False\<rparr>] \<rparr>)"
  by (simp add: TrackingInfo_init_def scenario_matrix_def update_tumepok_calculation_def
      add_daily_price_def matrix_last_def set_target_lines_def Let_def)

lemma RiseMatrix_lookup_no_match:
  "\<forall>row \<in> set m. \<not> (rise_min row \<le> r \<and> r \<le> rise_max row) \<Longrightarrow> RiseMatrix_lookup m r = last m"
  by (simp add: RiseMatrix_lookup_def find_None_iff [THEN iffD2])

lemma set_target_lines_fields:
  "target_drop_min (set_target_lines row t) = drop_min row \<and>
   target_drop_max (set_target_lines row t) = drop_max row \<and>
   target_drop_1st (set_target_lines row t) = drop_min row \<and>
   target_drop_2nd (set_target_lines row t) = (drop_min row + drop_max row) / 2 \<and>
   target_drop_3rd (set_target_lines row t) = drop_max row \<and>
   rise_rate (set_target_lines row t) = rise_rate t"
  by (simp add: set_target_lines_def Let_def)

text \<open>
  C9. For a matrix with at least one row the lookup always returns a row: the first row
  whose range holds the rise percentage, else the last row. Both
  \<open>_get_target_drop_rates\<close> and \<open>update_tumepok_calculation\<close> (once the rise rate is
  computed, which needs a start price other than 0) take their lines from that row and
  raise nothing.
\<close>

theorem matrix_lookup_total:
  assumes "m \<noteq> []"
  shows "RiseMatrix_lookup m r \<in> set m \<and>
         get_target_drop_rates m r = Inr (drops_of_row (RiseMatrix_lookup m r)) \<and>
         ((\<forall>row \<in> set m. \<not> (rise_min row \<le> r \<and> r \<le> rise_max row)) \<longrightarrow>
            get_target_drop_rates m r = Inr (drops_of_row (last m))) \<and>
         (start_price t \<noteq> 0 \<longrightarrow>
            fst (update_tumepok_calculation m t) = None \<and>
            rise_rate (snd (update_tumepok_calculation m t))
              = ((high_price t - start_price t) / start_price t) * 100 \<and>
            target_drop_min (snd (update_tumepok_calculation m t))
              = drop_min (RiseMatrix_lookup m (rise_rate (snd (update_tumepok_calculation m t)))) \<and>
            target_drop_max (snd (update_tumepok_calculation m t))
              = drop_max (RiseMatrix_lookup m (rise_rate (snd (update_tumepok_calculation m t)))))"
proof (intro conjI impI)
  show "RiseMatrix_lookup m r \<in> set m"
    using assms by (rule RiseMatrix_lookup_in_set)
  show "get_target_drop_rates m r = Inr (drops_of_row (RiseMatrix_lookup m r))"
    using assms by (rule get_target_drop_rates_lookup)
next
  assume "\<forall>row \<in> set m. \<not> (rise_min row \<le> r \<and> r \<le> rise_max row)"
  then have "RiseMatrix_lookup m r = last m"
    by (rule RiseMatrix_lookup_no_match)
  then show "get_target_drop_rates m r = Inr (drops_of_row (last m))"
    using get_target_drop_rates_lookup [OF assms, of r] by simp
next
  assume sp: "start_price t \<noteq> 0"
  note eq = update_tumepok_calculation_lookup [OF assms sp]
  show "fst (update_tumepok_calculation m t) = None"
    by (simp add: eq)
  show "rise_rate (snd (update_tumepok_calculation m t))
          = ((high_price t - start_price t) / start_price t) * 100"
    by (simp add: eq set_target_lines_fields)
  show "target_drop_min (snd (update_tumepok_calculation m t))
          = drop_min (RiseMatrix_lookup m (rise_rate (snd (update_tumepok_calculation m t))))"
    by (simp add: eq set_target_lines_fields)
  show "target_drop_max (snd (update_tumepok_calculation m t))
          = drop_max (RiseMatrix_lookup m (rise_rate (snd (update_tumepok_calculation m t))))"
    by (simp add: eq set_target_lines_fields)
qed

theorem matrix_lookup_total_witness:
  "scenario_matrix \<noteq> [] \<and>
   RiseMatrix_lookup scenario_matrix 45 \<in> set scenario_matrix \<and>
   get_target_drop_rates scenario_matrix 200 = Inr (drops_of_row (last scenario_matrix)) \<and>
   fst (update_tumepok_calculation scenario_matrix
          (snd (TrackingInfo_init scenario_matrix 10000 0))) = None"
proof -
  have ne: "scenario_matrix \<noteq> []"
    by (simp add: scenario_matrix_def)
  have sp: "start_price (snd (TrackingInfo_init scenario_matrix 10000 0)) \<noteq> 0"
    by (simp add: TrackingInfo_init_scenario)
  have no: "\<forall>row \<in> set scenario_matrix. \<not> (rise_min row \<le> 200 \<and> 200 \<le> rise_max row)"
    by (simp add: scenario_matrix_def)
  note w45 = matrix_lookup_total [OF ne, of 45 "snd (TrackingInfo_init scenario_matrix 10000 0)"]
  note w200 = matrix_lookup_total [OF ne, of 200 "snd (TrackingInfo_init scenario_matrix 10000 0)"]
  from w45 have a: "RiseMatrix_lookup scenario_matrix 45 \<in> set scenario_matrix"
    by (rule conjunct1)
  from w200 no have b: "get_target_drop_rates scenario_matrix 200
                          = Inr (drops_of_row (last scenario_matrix))"
    by blast
  from w45 sp have c: "fst (update_tumepok_calculation scenario_matrix
          (snd (TrackingInfo_init scenario_matrix 10000 0))) = None"
    by blast
  from ne a b c show ?thesis by blast
qed

lemma drops_of_row_lines:
  "td_1st (drops_of_row row) = drop_min row \<and>
   td_2nd (drops_of_row row) = drop_min row + 0.5 * (drop_max row - drop_min row) \<and>
   td_3rd (drops_of_row row) = drop_min row + 0.9 * (drop_max row - drop_min row) \<and>
   td_stop (drops_of_row row) = drop_max row"
  by (simp add: drops_of_row_def Let_def)

lemma tier3_below_stop: "(a::real) < b \<Longrightarrow> a + 0.9 * (b - a) < b"
  by argo

lemma update_price_scenario_high:
  "update_price scenario_matrix 0 14500 None None (snd (TrackingInfo_init scenario_matrix 10000 0)) =
     (Inr ''HIGH_UPDATED'',
      \<lparr> start_date = 0, start_price = 10000, high_price = 14500,
        current_price = 14500, rise_days = 1, rise_rate = 45,
        daily_change_rate = 0, drop_rate = 0,
        target_drop_min = 8, target_drop_max = 15,
        target_drop_1st = 8, target_drop_2nd = 23 / 2, target_drop_3rd = 15,
        status = TRACKING, waiting_days = 0, bought_stages = {},
        daily_prices = [\<lparr>dp_date = 0, dp_price = 14500, dp_is_high = True\<rparr>] \<rparr>)"
  unfolding TrackingInfo_init_scenario
  by (simp add: update_price_def set_tick_fields_def state_rules_def update_high_def record_today_def
      scenario_matrix_def update_tumepok_calculation_def set_target_lines_def Let_def)

text \<open>
  C1 as stated fails on \<open>TrackingInfo.update_tumepok_calculation\<close>: with the row of
  scenario A and a high of 14,500 over a start of 10,000, the third line is 15, the
  row's maximum, not 8 + 0.9 (15 - 8), and it is not below the maximum.
\<close>

theorem tracker_tier3_counterexample:
  "target_drop_3rd (snd (update_price scenario_matrix 0 14500 None None
                           (snd (TrackingInfo_init scenario_matrix 10000 0))))
     \<noteq> drop_min (hd scenario_matrix)
         + 0.9 * (drop_max (hd scenario_matrix) - drop_min (hd scenario_matrix))
   \<and> drop_min (hd scenario_matrix) < drop_max (hd scenario_matrix)
   \<and> \<not> target_drop_3rd (snd (update_price scenario_matrix 0 14500 None None
                           (snd (TrackingInfo_init scenario_matrix 10000 0))))
        < target_drop_max (snd (update_price scenario_matrix 0 14500 None None
                           (snd (TrackingInfo_init scenario_matrix 10000 0))))"
  unfolding update_price_scenario_high
  by (simp add: scenario_matrix_def)

text \<open>
  C1, amended. For a matrix with at least one row, \<open>_get_target_drop_rates\<close> returns
  tier1 = dropMin, tier2 = dropMin + 0.5 (dropMax - dropMin),
  tier3 = dropMin + 0.9 (dropMax - dropMin) and stopLoss = dropMax of the row looked up,
  with tier3 < stopLoss whenever dropMax > dropMin.
  \<open>TrackingInfo.update_tumepok_calculation\<close> sets the first line to dropMin, the second
  to the same midpoint, and the third line to dropMax itself.
\<close>

theorem tier_lines_of_row:
  assumes "m \<noteq> []"
  shows "(\<exists>td. get_target_drop_rates m r = Inr td \<and>
            td_1st td = drop_min (RiseMatrix_lookup m r) \<and>
            td_2nd td = drop_min (RiseMatrix_lookup m r)
               + 0.5 * (drop_max (RiseMatrix_lookup m r) - drop_min (RiseMatrix_lookup m r)) \<and>
            td_3rd td = drop_min (RiseMatrix_lookup m r)
               + 0.9 * (drop_max (RiseMatrix_lookup m r) - drop_min (RiseMatrix_lookup m r)) \<and>
            td_stop td = drop_max (RiseMatrix_lookup m r) \<and>
            (drop_min (RiseMatrix_lookup m r) < drop_max (RiseMatrix_lookup m r)
               \<longrightarrow> td_3rd td < td_stop td)) \<and>
         (start_price t \<noteq> 0 \<longrightarrow>
            (\<exists>t'. update_tumepok_calculation m t = (None, t') \<and>
               target_drop_1st t' = drop_min (RiseMatrix_lookup m (rise_rate t')) \<and>
               target_drop_2nd t' = drop_min (RiseMatrix_lookup m (rise_rate t'))
                  + 0.5 * (drop_max (RiseMatrix_lookup m (rise_rate t'))
                           - drop_min (RiseMatrix_lookup m (rise_rate t'))) \<and>
               target_drop_3rd t' = drop_max (RiseMatrix_lookup m (rise_rate t')) \<and>
               target_drop_max t' = drop_max (RiseMatrix_lookup m (rise_rate t'))))"
proof (intro conjI impI)
  show "\<exists>td. get_target_drop_rates m r = Inr td \<and>
            td_1st td = drop_min (RiseMatrix_lookup m r) \<and>
            td_2nd td = drop_min (RiseMatrix_lookup m r)
               + 0.5 * (drop_max (RiseMatrix_lookup m r) - drop_min (RiseMatrix_lookup m r)) \<and>
            td_3rd td = drop_min (RiseMatrix_lookup m r)
               + 0.9 * (drop_max (RiseMatrix_lookup m r) - drop_min (RiseMatrix_lookup m r)) \<and>
            td_stop td = drop_max (RiseMatrix_lookup m r) \<and>
            (drop_min (RiseMatrix_lookup m r) < drop_max (RiseMatrix_lookup m r)
               \<longrightarrow> td_3rd td < td_stop td)"
    using assms tier3_below_stop [of "drop_min (RiseMatrix_lookup m r)" "drop_max (RiseMatrix_lookup m r)"]
    by (simp add: get_target_drop_rates_lookup drops_of_row_lines)
next
  assume sp: "start_price t \<noteq> 0"
  show "\<exists>t'. update_tumepok_calculation m t = (None, t') \<and>
               target_drop_1st t' = drop_min (RiseMatrix_lookup m (rise_rate t')) \<and>
               target_drop_2nd t' = drop_min (RiseMatrix_lookup m (rise_rate t'))
                  + 0.5 * (drop_max (RiseMatrix_lookup m (rise_rate t'))
                           - drop_min (RiseMatrix_lookup m (rise_rate t'))) \<and>
               target_drop_3rd t' = drop_max (RiseMatrix_lookup m (rise_rate t')) \<and>
               target_drop_max t' = drop_max (RiseMatrix_lookup m (rise_rate t'))"
    using assms sp
    by (simp add: update_tumepok_calculation_lookup set_target_lines_fields field_simps)
qed

theorem tier_lines_of_row_witness:
  "scenario_matrix \<noteq> [] \<and>
   get_target_drop_rates scenario_matrix 45
     = Inr \<lparr>td_1st = 8, td_2nd = 23 / 2, td_3rd = 143 / 10, td_stop = 15\<rparr> \<and>
   (143 / 10 :: real) < 15 \<and>
   fst (update_tumepok_calculation scenario_matrix (snd (TrackingInfo_init scenario_matrix 10000 0)))
     = None"
  using tier_lines_of_row [where m = scenario_matrix and r = 45
      and t = "snd (TrackingInfo_init scenario_matrix 10000 0)"]
  unfolding TrackingInfo_init_scenario
  by (simp add: scenario_matrix_def get_target_drop_rates_def
      drops_of_row_def update_tumepok_calculation_def matrix_last_def Let_def)

subsection \<open>Tier determination\<close>

lemma get_target_drop_rates_scenario:
  "get_target_drop_rates scenario_matrix 45
     = Inr \<lparr>td_1st = 8, td_2nd = 23 / 2, td_3rd = 143 / 10, td_stop = 15\<rparr>"
  by (simp add: get_target_drop_rates_def scenario_matrix_def drops_of_row_def Let_def)

lemma update_tracking_stock_scenario_deep:
  "update_tracking_stock scenario_matrix False ''A'' 12325 None None scenario_engine =
     (True, scenario_engine\<lparr>tracking_stocks :=
        [''A'' \<mapsto> scenario_tracking\<lparr>et_current_price := 12325, et_status := READY,
                                     et_drop_rate := Some 15\<rparr>]\<rparr>)"
  by (simp add: update_tracking_stock_def engine_track_high_def engine_state_rules_def
      scenario_engine_def scenario_tracking_def
      engine_update_high_def engine_rates_def get_or_def put_tracking_def
      get_target_drop_rates_scenario engine_get_buy_stage_def Let_def)

text \<open>
  The tracker's \<open>get_buy_stage\<close> tests the third line first, then the second, then the
  first, each with its filled check.
\<close>

lemma get_buy_stage_highest_first:
  assumes "status t = READY" and "start_price t \<noteq> 0"
    and "d = rise_rate t - ((cur - start_price t) / start_price t) * 100"
  shows "(d \<ge> target_drop_max t \<and> Stage_3rd \<notin> bought_stages t
            \<longrightarrow> get_buy_stage cur t = Inr Stage_3rd) \<and>
         (\<not> (d \<ge> target_drop_max t \<and> Stage_3rd \<notin> bought_stages t)
            \<and> d \<ge> (target_drop_min t + target_drop_max t) / 2 \<and> Stage_2nd \<notin> bought_stages t
            \<longrightarrow> get_buy_stage cur t = Inr Stage_2nd) \<and>
         (\<not> (d \<ge> target_drop_max t \<and> Stage_3rd \<notin> bought_stages t)
            \<and> \<not> (d \<ge> (target_drop_min t + target_drop_max t) / 2 \<and> Stage_2nd \<notin> bought_stages t)
            \<and> d \<ge> target_drop_min t \<and> Stage_1st \<notin> bought_stages t
            \<longrightarrow> get_buy_stage cur t = Inr Stage_1st)"
  using assms by (simp add: get_buy_stage_def Let_def)

text \<open>
  C3 on \<open>TumepokEngine._get_buy_stage\<close>. The symbol of scenario A falls to 12,325, a
  pullback of 15 percent from the high: the tick makes it \<open>READY\<close> with no tier filled,
  the pullback meets the third line 14.3, and \<open>_get_buy_stage\<close> returns the first tier,
  where \<open>_get_buy_stage_from_drop_rate\<close> returns the third for the same pullback.
\<close>

theorem engine_get_buy_stage_first_tier_wins:
  "engine_get_buy_stage scenario_matrix
      (tracking_stocks (snd (update_tracking_stock scenario_matrix False ''A'' 12325 None None
                               scenario_engine))) ''A'' = Stage_1st \<and>
   (case tracking_stocks (snd (update_tracking_stock scenario_matrix False ''A'' 12325 None None
                               scenario_engine)) ''A'' of
      None \<Rightarrow> False
    | Some ti \<Rightarrow>
        et_status ti = READY \<and> et_drop_rate ti = Some 15 \<and> et_bought_stages ti = Some {} \<and>
        get_target_drop_rates scenario_matrix 45
          = Inr \<lparr>td_1st = 8, td_2nd = 23 / 2, td_3rd = 143 / 10, td_stop = 15\<rparr> \<and>
        get_buy_stage_from_drop_rate 15 \<lparr>td_1st = 8, td_2nd = 23 / 2, td_3rd = 143 / 10,
                                           td_stop = 15\<rparr> = Stage_3rd)"
  unfolding update_tracking_stock_scenario_deep
  by (simp add: scenario_engine_def scenario_tracking_def engine_get_buy_stage_def get_or_def
      get_target_drop_rates_scenario get_buy_stage_from_drop_rate_def)

subsection \<open>High-water-mark updates and the waiting state\<close>

lemma tracked_high_eq:
  "tracked_high =
     \<lparr> start_date = 0, start_price = 10000, high_price = 14500,
       current_price = 14500, rise_days = 1, rise_rate = 45,
       daily_change_rate = 0, drop_rate = 0,
       target_drop_min = 8, target_drop_max = 15,
       target_drop_1st = 8, target_drop_2nd = 23 / 2, target_drop_3rd = 15,
       status = TRACKING, waiting_days = 0, bought_stages = {},
       daily_prices = [\<lparr>dp_date = 0, dp_price = 14500, dp_is_high = True\<rparr>] \<rparr>"
  unfolding tracked_high_def TrackingInfo_init_scenario snd_conv
  by (simp add: update_price_def set_tick_fields_def state_rules_def update_high_def record_today_def
      scenario_matrix_def update_tumepok_calculation_def set_target_lines_def Let_def)

lemma tracked_waiting_eq:
  "tracked_waiting =
     \<lparr> start_date = 0, start_price = 10000, high_price = 14500,
       current_price = 14400, rise_days = 2, rise_rate = 45,
       daily_change_rate = 0, drop_rate = 1,
       target_drop_min = 8, target_drop_max = 15,
       target_drop_1st = 8, target_drop_2nd = 23 / 2, target_drop_3rd = 15,
       status = WAITING, waiting_days = 1, bought_stages = {},
       daily_prices = [\<lparr>dp_date = 0, dp_price = 14500, dp_is_high = True\<rparr>,
                       \<lparr>dp_date = 1, dp_price = 14400, dp_is_high = False\<rparr>] \<rparr>"
  unfolding tracked_waiting_def tracked_high_eq
  by (simp add: update_price_def set_tick_fields_def state_rules_def update_high_def record_today_def add_daily_price_def
      recompute_drop_rate_def check_tumepok_entry_def should_start_waiting_def Let_def)

lemma update_price_new_high_in_waiting:
  "update_price scenario_matrix 1 15000 None None tracked_waiting =
     (Inr ''HIGH_UPDATED'',
      \<lparr> start_date = 0, start_price = 10000, high_price = 15000,
        current_price = 15000, rise_days = 2, rise_rate = 50,
        daily_change_rate = 0, drop_rate = 1,
        target_drop_min = 8, target_drop_max = 15,
        target_drop_1st = 8, target_drop_2nd = 23 / 2, target_drop_3rd = 15,
        status = WAITING, waiting_days = 1, bought_stages = {},
        daily_prices = [\<lparr>dp_date = 0, dp_price = 14500, dp_is_high = True\<rparr>,
                        \<lparr>dp_date = 1, dp_price = 15000, dp_is_high = True\<rparr>] \<rparr>)"
  unfolding tracked_waiting_eq
  by (simp add: update_price_def set_tick_fields_def state_rules_def update_high_def record_today_def
      scenario_matrix_def update_tumepok_calculation_def set_target_lines_def Let_def)

text \<open>
  Whenever \<open>update_price\<close> raises \<open>high_price\<close> it returns before the state rules: the
  status and \<open>waiting_days\<close> are as they were.
\<close>

lemma set_tick_fields_keeps:
  "status (set_tick_fields today cur change_arg t) = status t"
  "waiting_days (set_tick_fields today cur change_arg t) = waiting_days t"
  "drop_rate (set_tick_fields today cur change_arg t) = drop_rate t"
  "high_price (set_tick_fields today cur change_arg t) = high_price t"
  "start_price (set_tick_fields today cur change_arg t) = start_price t"
  "rise_rate (set_tick_fields today cur change_arg t) = rise_rate t"
  by (simp_all add: set_tick_fields_def Let_def split: option.splits)

lemma update_high_cases:
  "update_high cur high_arg t = (b, t') \<Longrightarrow>
     (b \<longrightarrow> high_price t' > high_price t) \<and> (\<not> b \<longrightarrow> t' = t) \<and>
     status t' = status t \<and> waiting_days t' = waiting_days t \<and>
     start_price t' = start_price t \<and> rise_rate t' = rise_rate t \<and>
     daily_prices t' = daily_prices t \<and> drop_rate t' = drop_rate t"
  by (auto simp: update_high_def split: option.splits if_splits)

lemma update_tumepok_calculation_keeps:
  "update_tumepok_calculation m t = (r, t') \<Longrightarrow>
     status t' = status t \<and> waiting_days t' = waiting_days t \<and>
     high_price t' = high_price t \<and> drop_rate t' = drop_rate t"
  by (auto simp: update_tumepok_calculation_def set_target_lines_def Let_def
      split: option.splits sum.splits if_splits)

lemma record_today_keeps:
  "status (record_today today cur b t) = status t \<and>
   waiting_days (record_today today cur b t) = waiting_days t \<and>
   high_price (record_today today cur b t) = high_price t \<and>
   start_price (record_today today cur b t) = start_price t \<and>
   rise_rate (record_today today cur b t) = rise_rate t \<and>
   drop_rate (record_today today cur b t) = drop_rate t"
  by (simp add: record_today_def add_daily_price_def Let_def)

lemma update_price_high_raised_keeps_waiting:
  assumes "fst (update_high cur high_arg t)"
  shows "status (snd (update_price m today cur change_arg high_arg t)) = status t \<and>
         waiting_days (snd (update_price m today cur change_arg high_arg t)) = waiting_days t \<and>
         drop_rate (snd (update_price m today cur change_arg high_arg t)) = drop_rate t"
proof -
  define t3 where "t3 = set_tick_fields today cur change_arg t"
  have t3: "status t3 = status t" "waiting_days t3 = waiting_days t" "drop_rate t3 = drop_rate t"
    "high_price t3 = high_price t"
    by (simp_all add: t3_def set_tick_fields_keeps)
  obtain b t4 where uh: "update_high cur high_arg t3 = (b, t4)"
    by (cases "update_high cur high_arg t3")
  have "fst (update_high cur high_arg t3) = fst (update_high cur high_arg t)"
    using t3(4) by (simp add: update_high_def split: option.splits)
  with assms uh have b: "b" by simp
  obtain r t6 where utc: "update_tumepok_calculation m (record_today today cur b t4) = (r, t6)"
    by (cases "update_tumepok_calculation m (record_today today cur b t4)")
  have up: "update_price m today cur change_arg high_arg t
              = (case r of Some e \<Rightarrow> (Inl e, t6) | None \<Rightarrow> (Inr ''HIGH_UPDATED'', t6))"
    using uh b utc
    by (simp add: update_price_def t3_def [symmetric] Let_def split: option.splits)
  have "status t6 = status t \<and> waiting_days t6 = waiting_days t \<and> drop_rate t6 = drop_rate t"
    using update_tumepok_calculation_keeps [OF utc] record_today_keeps [of today cur b t4]
      update_high_cases [OF uh] t3 by simp
  then show ?thesis
    by (simp add: up split: option.splits)
qed

text \<open>
  C4 on \<open>TrackingInfo.update_price\<close>. The symbol of scenario A reaches 14,500, drifts to
  14,400 the next day and goes \<open>WAITING\<close> with \<open>waiting_days = 1\<close>; a tick at 15,000 then
  raises the high to 15,000 and returns \<open>HIGH_UPDATED\<close>, and the symbol is still
  \<open>WAITING\<close> with \<open>waiting_days = 1\<close>.
\<close>

theorem update_price_high_update_leaves_waiting:
  "status tracked_waiting = WAITING \<and> waiting_days tracked_waiting = 1 \<and>
   high_price tracked_waiting = 14500 \<and>
   fst (update_price scenario_matrix 1 15000 None None tracked_waiting) = Inr ''HIGH_UPDATED'' \<and>
   high_price (snd (update_price scenario_matrix 1 15000 None None tracked_waiting)) = 15000 \<and>
   status (snd (update_price scenario_matrix 1 15000 None None tracked_waiting)) = WAITING \<and>
   waiting_days (snd (update_price scenario_matrix 1 15000 None None tracked_waiting)) = 1"
  unfolding update_price_new_high_in_waiting
  by (simp add: tracked_waiting_eq)

text \<open>
  The engine resets on a new high and then applies its state rules in the same call: with
  the new high at 15,000 the pullback is 0, under the first line, and the symbol ends the
  call \<open>WAITING\<close> with \<open>waiting_days = 1\<close>.
\<close>

lemma engine_high_update_then_waiting:
  "update_tracking_stock scenario_matrix False ''A'' 15000 None None scenario_engine =
     (False, scenario_engine\<lparr>tracking_stocks :=
        [''A'' \<mapsto> scenario_tracking\<lparr>et_current_price := 15000, et_high_price := 15000,
                                     et_rise_days := 2, et_waiting_days := Some 1,
                                     et_status := WAITING, et_drop_rate := Some 0,
                                     et_cumulative_rise_rate := Some 50\<rparr>]\<rparr>)"
  by (simp add: update_tracking_stock_def engine_track_high_def engine_state_rules_def
      scenario_engine_def scenario_tracking_def
      engine_update_high_def engine_rates_def get_or_def put_tracking_def
      get_target_drop_rates_def scenario_matrix_def drops_of_row_def Let_def)

subsection \<open>The pullback on a price update\<close>

lemma state_rules_keeps_drop:
  "drop_rate (snd (state_rules today t)) = drop_rate t \<and>
   rise_rate (snd (state_rules today t)) = rise_rate t \<and>
   high_price (snd (state_rules today t)) = high_price t"
  by (simp add: state_rules_def check_tumepok_entry_def check_waiting_period_def)

lemma recompute_drop_rate_value:
  "start_price t > 0 \<Longrightarrow>
     drop_rate (recompute_drop_rate cur t)
       = max 0 (rise_rate t - ((cur - start_price t) / start_price t) * 100)"
  by (simp add: recompute_drop_rate_def Let_def max_def)

lemma recompute_drop_rate_keeps:
  "rise_rate (recompute_drop_rate cur t) = rise_rate t \<and>
   high_price (recompute_drop_rate cur t) = high_price t"
  by (simp add: recompute_drop_rate_def Let_def)

lemma update_high_fst_high_price:
  "high_price t' = high_price t \<Longrightarrow>
     fst (update_high cur high_arg t') = fst (update_high cur high_arg t)"
  by (simp add: update_high_def split: option.splits)

lemma update_price_no_raise_unfold:
  assumes "update_high cur high_arg (set_tick_fields today cur change_arg t) = (False, t4)"
  shows "snd (update_price m today cur change_arg high_arg t)
           = snd (state_rules today (recompute_drop_rate cur (record_today today cur False t4)))"
  unfolding update_price_def Let_def assms
  by (simp split: prod.splits)

lemma update_price_raise_unfold:
  assumes "update_high cur high_arg (set_tick_fields today cur change_arg t) = (True, t4)"
  shows "snd (update_price m today cur change_arg high_arg t)
           = snd (update_tumepok_calculation m (record_today today cur True t4))"
  unfolding update_price_def Let_def assms
  by (simp split: prod.splits option.splits)

text \<open>A tick leaves \<open>high_price\<close> as it was exactly when the high-water-mark step reports no update.\<close>

lemma update_price_high_unchanged_iff:
  "high_price (snd (update_price m today cur change_arg high_arg t)) = high_price t
     \<longleftrightarrow> \<not> fst (update_high cur high_arg t)"
proof -
  define t3 where "t3 = set_tick_fields today cur change_arg t"
  have h3: "high_price t3 = high_price t"
    by (simp add: t3_def set_tick_fields_keeps)
  obtain b t4 where uh: "update_high cur high_arg t3 = (b, t4)"
    by (cases "update_high cur high_arg t3")
  have fb: "fst (update_high cur high_arg t) = b"
    using update_high_fst_high_price [OF h3, of cur high_arg] uh by simp
  show ?thesis
  proof (cases b)
    case True
    with uh have u: "update_high cur high_arg (set_tick_fields today cur change_arg t) = (True, t4)"
      by (simp add: t3_def)
    obtain r t6 where utc: "update_tumepok_calculation m (record_today today cur True t4) = (r, t6)"
      by (cases "update_tumepok_calculation m (record_today today cur True t4)")
    have "high_price t6 = high_price t4"
      using update_tumepok_calculation_keeps [OF utc] record_today_keeps [of today cur True t4]
      by simp
    moreover have "high_price t4 > high_price t"
      using update_high_cases [OF uh] True h3 by simp
    ultimately show ?thesis
      using fb True by (simp add: update_price_raise_unfold [OF u] utc)
  next
    case False
    with uh have u: "update_high cur high_arg (set_tick_fields today cur change_arg t) = (False, t4)"
      by (simp add: t3_def)
    have "t4 = t3" using update_high_cases [OF uh] False by simp
    then have "high_price (snd (update_price m today cur change_arg high_arg t)) = high_price t"
      using h3 state_rules_keeps_drop recompute_drop_rate_keeps record_today_keeps
      by (simp add: update_price_no_raise_unfold [OF u])
    then show ?thesis using fb False by simp
  qed
qed

lemma update_price_no_raise_drop:
  assumes nh: "\<not> fst (update_high cur high_arg t)" and sp: "start_price t > 0"
  shows "drop_rate (snd (update_price m today cur change_arg high_arg t))
           = max 0 (rise_rate t - ((cur - start_price t) / start_price t) * 100) \<and>
         rise_rate (snd (update_price m today cur change_arg high_arg t)) = rise_rate t"
proof -
  define t3 where "t3 = set_tick_fields today cur change_arg t"
  have t3: "high_price t3 = high_price t" "start_price t3 = start_price t"
    "rise_rate t3 = rise_rate t"
    by (simp_all add: t3_def set_tick_fields_keeps)
  obtain b t4 where uh: "update_high cur high_arg t3 = (b, t4)"
    by (cases "update_high cur high_arg t3")
  have "fst (update_high cur high_arg t) = b"
    using update_high_fst_high_price [OF t3(1), of cur high_arg] uh by simp
  with nh have b: "\<not> b" by simp
  with uh have u: "update_high cur high_arg (set_tick_fields today cur change_arg t) = (False, t4)"
    by (simp add: t3_def)
  have t4: "t4 = t3" using update_high_cases [OF uh] b by simp
  define t5 where "t5 = record_today today cur False t4"
  have t5: "start_price t5 = start_price t" "rise_rate t5 = rise_rate t"
    using record_today_keeps [of today cur False t4] t4 t3 by (simp_all add: t5_def)
  have d6: "drop_rate (recompute_drop_rate cur t5)
              = max 0 (rise_rate t - ((cur - start_price t) / start_price t) * 100)"
    using recompute_drop_rate_value [of t5 cur] sp t5 by simp
  have r6: "rise_rate (recompute_drop_rate cur t5) = rise_rate t"
    using recompute_drop_rate_keeps [of cur t5] t5 by simp
  have up: "snd (update_price m today cur change_arg high_arg t)
              = snd (state_rules today (recompute_drop_rate cur t5))"
    using update_price_no_raise_unfold [OF u] by (simp add: t5_def)
  show ?thesis
    using d6 r6 state_rules_keeps_drop [of today "recompute_drop_rate cur t5"]
    by (simp add: up)
qed

text \<open>The tracking entry after \<open>execute_stop_loss\<close>, when one remains, differs only in its status.\<close>

lemma send_stop_loss_order_keeps:
  "tracking_stocks (send_stop_loss_order send_raises ord e) = tracking_stocks e \<and>
   positions (send_stop_loss_order send_raises ord e) = positions e"
  by (simp add: send_stop_loss_order_def split: option.splits)

lemma execute_stop_loss_skip:
  "positions e code = Some position \<Longrightarrow>
     get_or (ep_total_quantity position) 0 \<le> 0 \<or> get_or (ep_stop_loss_executed position) False \<Longrightarrow>
     execute_stop_loss send_raises code reason e = e"
  by (auto simp: execute_stop_loss_def Let_def)

lemma execute_stop_loss_fire:
  assumes "positions e code = Some position"
    and "\<not> get_or (ep_total_quantity position) 0 \<le> 0"
    and "\<not> get_or (ep_stop_loss_executed position) False"
  shows "execute_stop_loss send_raises code reason e =
           (let e1 = send_stop_loss_order send_raises
                       \<lparr>so_stock_code = code,
                        so_quantity = get_or (ep_total_quantity position) 0,
                        so_reason = reason\<rparr> e;
                e2 = (case tracking_stocks e1 code of
                        None \<Rightarrow> e1
                      | Some ti \<Rightarrow>
                          e1\<lparr>tracking_stocks :=
                               (tracking_stocks e1)(code \<mapsto> ti\<lparr>et_status := STOPPED\<rparr>)\<rparr>)
            in e2\<lparr>positions := (positions e2)
                   (code \<mapsto> position\<lparr>ep_stop_loss_executed := Some True,
                                      ep_status := Some ''SELLING''\<rparr>)\<rparr>)"
  using assms by (simp add: execute_stop_loss_def Let_def)

lemma execute_stop_loss_tracking:
  assumes "tracking_stocks (execute_stop_loss send_raises code reason e) code = Some ti'"
  shows "\<exists>ti. tracking_stocks e code = Some ti \<and>
              et_drop_rate ti' = et_drop_rate ti \<and> et_high_price ti' = et_high_price ti \<and>
              et_current_price ti' = et_current_price ti"
proof (cases "positions e code")
  case None
  with assms show ?thesis by (simp add: execute_stop_loss_def)
next
  case (Some position)
  show ?thesis
  proof (cases "get_or (ep_total_quantity position) 0 \<le> 0
                 \<or> get_or (ep_stop_loss_executed position) False")
    case True
    from execute_stop_loss_skip [OF Some True] assms show ?thesis by simp
  next
    case False
    then have f: "\<not> get_or (ep_total_quantity position) 0 \<le> 0"
      "\<not> get_or (ep_stop_loss_executed position) False" by simp_all
    from assms show ?thesis
      unfolding execute_stop_loss_fire [OF Some f] Let_def
      by (cases "tracking_stocks e code") (auto simp: send_stop_loss_order_keeps)
  qed
qed

lemma engine_rates_drop:
  "et_drop_rate (engine_rates cur ti)
     = Some (if et_high_price (engine_rates cur ti) > 0
             then (et_high_price (engine_rates cur ti) - cur) / et_high_price (engine_rates cur ti) * 100
             else 0)"
  by (simp add: engine_rates_def Let_def)

lemma engine_track_high_drop:
  "et_drop_rate (engine_track_high cur change_arg high_arg ti0)
     = Some (if et_high_price (engine_track_high cur change_arg high_arg ti0) > 0
             then (et_high_price (engine_track_high cur change_arg high_arg ti0) - cur)
                  / et_high_price (engine_track_high cur change_arg high_arg ti0) * 100
             else 0)"
  unfolding engine_track_high_def Let_def
  by (simp only: engine_rates_drop split: prod.splits) simp

lemma put_tracking_entry: "tracking_stocks (put_tracking code x e) code = Some x"
  by (simp add: put_tracking_def)

lemma engine_state_rules_entry:
  assumes "tracking_stocks (snd (engine_state_rules m send_raises code ti5 e)) code = Some ti'"
  shows "et_drop_rate ti' = et_drop_rate ti5 \<and> et_high_price ti' = et_high_price ti5"
proof (cases "get_target_drop_rates m (get_or (et_cumulative_rise_rate ti5) 0)")
  case (Inl err)
  with assms show ?thesis
    by (simp add: engine_state_rules_def Let_def put_tracking_entry)
next
  case (Inr td)
  consider (stop) "get_or (et_drop_rate ti5) 0 > td_stop td"
    | (buy) "\<not> get_or (et_drop_rate ti5) 0 > td_stop td"
        "td_1st td \<le> get_or (et_drop_rate ti5) 0 \<and> get_or (et_drop_rate ti5) 0 \<le> td_stop td"
    | (wait) "\<not> get_or (et_drop_rate ti5) 0 > td_stop td"
        "\<not> (td_1st td \<le> get_or (et_drop_rate ti5) 0 \<and> get_or (et_drop_rate ti5) 0 \<le> td_stop td)"
    by blast
  then show ?thesis
  proof cases
    case stop
    show ?thesis
    proof (cases "get_or (et_bought_stages ti5) {} \<noteq> {}
                   \<and> \<not> get_or (case positions e code of None \<Rightarrow> None
                                  | Some position \<Rightarrow> ep_stop_loss_executed position) False")
      case True
      with assms Inr stop have
        "tracking_stocks (execute_stop_loss send_raises code ''max drop exceeded''
                            (put_tracking code ti5 e)) code = Some ti'"
        by (simp add: engine_state_rules_def Let_def)
      from execute_stop_loss_tracking [OF this] show ?thesis
        by (simp add: put_tracking_entry)
    next
      case False
      with assms Inr stop show ?thesis
        by (auto simp: engine_state_rules_def Let_def put_tracking_entry split: if_splits)
    qed
  next
    case buy
    with assms Inr show ?thesis
      by (auto simp: engine_state_rules_def Let_def put_tracking_entry)
  next
    case wait
    with assms Inr show ?thesis
      by (auto simp: engine_state_rules_def Let_def put_tracking_entry split: if_splits)
  qed
qed

lemma update_tracking_stock_drop:
  assumes "tracking_stocks e code \<noteq> None"
    and "tracking_stocks (snd (update_tracking_stock m send_raises code cur change_arg high_arg e))
             code = Some ti'"
  shows "et_drop_rate ti'
           = Some (if et_high_price ti' > 0
                   then (et_high_price ti' - cur) / et_high_price ti' * 100 else 0)"
proof -
  from assms(1) obtain ti0 where t0: "tracking_stocks e code = Some ti0" by auto
  from assms(2) t0 have
    "tracking_stocks (snd (engine_state_rules m send_raises code
        (engine_track_high cur change_arg high_arg ti0) e)) code = Some ti'"
    by (simp add: update_tracking_stock_def)
  from engine_state_rules_entry [OF this] engine_track_high_drop [of cur change_arg high_arg ti0]
  show ?thesis by simp
qed

text \<open>
  C2 as stated fails on \<open>TumepokEngine.update_tracking_stock\<close>: the symbol of scenario A
  (start 10,000, high 14,500, rise 45 percent) ticks at 12,325. The claim's pullback is
  45 - 23.25 = 21.75; the engine stores (14,500 - 12,325) / 14,500 = 15 percent.
\<close>

theorem engine_drop_rate_counterexample:
  "tracking_stocks (snd (update_tracking_stock scenario_matrix False ''A'' 12325 None None
                           scenario_engine)) ''A''
     = Some (scenario_tracking\<lparr>et_current_price := 12325, et_status := READY,
                               et_drop_rate := Some 15\<rparr>) \<and>
   et_start_price scenario_tracking = Some 10000 \<and>
   et_cumulative_rise_rate scenario_tracking = Some 45 \<and>
   (15 :: real) \<noteq> max 0 (45 - ((12325 - 10000) / 10000) * 100)"
  unfolding update_tracking_stock_scenario_deep
  by (simp add: scenario_tracking_def)

text \<open>
  C2, amended. On a tick that leaves \<open>high_price\<close> as it was, with a start price above 0,
  \<open>TrackingInfo.update_price\<close> sets the pullback to
  max(0, rise rate - rise of the current price over the start price).
  \<open>TumepokEngine.update_tracking_stock\<close> sets the pullback of a tracked symbol to
  (high - price) / high in percent when the high is above 0, else to 0.
\<close>

theorem drop_rate_on_update:
  "(high_price (snd (update_price m today cur change_arg high_arg t)) = high_price t
      \<and> start_price t > 0 \<longrightarrow>
      drop_rate (snd (update_price m today cur change_arg high_arg t))
        = max 0 (rise_rate (snd (update_price m today cur change_arg high_arg t))
                 - ((cur - start_price t) / start_price t) * 100)) \<and>
   (tracking_stocks e code \<noteq> None \<longrightarrow>
      (\<forall>ti'. tracking_stocks
               (snd (update_tracking_stock m send_raises code cur change_arg high_arg e)) code
               = Some ti' \<longrightarrow>
             et_drop_rate ti'
               = Some (if et_high_price ti' > 0
                       then (et_high_price ti' - cur) / et_high_price ti' * 100 else 0)))"
proof (intro conjI impI allI)
  assume a: "high_price (snd (update_price m today cur change_arg high_arg t)) = high_price t
               \<and> start_price t > 0"
  then have "\<not> fst (update_high cur high_arg t)"
    by (simp add: update_price_high_unchanged_iff)
  from update_price_no_raise_drop [where m = m and today = today and change_arg = change_arg, OF this] a
  show "drop_rate (snd (update_price m today cur change_arg high_arg t))
          = max 0 (rise_rate (snd (update_price m today cur change_arg high_arg t))
                   - ((cur - start_price t) / start_price t) * 100)"
    by simp
next
  fix ti'
  assume "tracking_stocks e code \<noteq> None"
    and "tracking_stocks
           (snd (update_tracking_stock m send_raises code cur change_arg high_arg e)) code = Some ti'"
  then show "et_drop_rate ti'
               = Some (if et_high_price ti' > 0
                       then (et_high_price ti' - cur) / et_high_price ti' * 100 else 0)"
    by (rule update_tracking_stock_drop)
qed

theorem drop_rate_on_update_witness:
  "high_price tracked_waiting = high_price tracked_high \<and> start_price tracked_high > 0 \<and>
   drop_rate tracked_waiting
     = max 0 (rise_rate tracked_waiting
              - ((14400 - start_price tracked_high) / start_price tracked_high) * 100) \<and>
   drop_rate tracked_waiting = 1 \<and>
   tracking_stocks scenario_engine ''A'' \<noteq> None \<and>
   et_drop_rate (scenario_tracking\<lparr>et_current_price := 12325, et_status := READY,
                                   et_drop_rate := Some 15\<rparr>)
     = Some ((14500 - 12325) / 14500 * 100)"
proof -
  have p1: "high_price tracked_waiting = high_price tracked_high"
    by (simp add: tracked_waiting_eq tracked_high_eq)
  have p2: "start_price tracked_high > 0"
    by (simp add: tracked_high_eq)
  have p3: "tracking_stocks scenario_engine ''A'' \<noteq> None"
    by (simp add: scenario_engine_def)
  note w = drop_rate_on_update [where m = scenario_matrix and today = 1 and cur = 14400
      and change_arg = None and high_arg = None and t = tracked_high
      and e = scenario_engine and code = "''A''" and send_raises = False]
  note v = drop_rate_on_update [where m = scenario_matrix and today = 1 and cur = 12325
      and change_arg = None and high_arg = None and t = tracked_high
      and e = scenario_engine and code = "''A''" and send_raises = False]
  from w p1 p2 have a: "drop_rate tracked_waiting
     = max 0 (rise_rate tracked_waiting
              - ((14400 - start_price tracked_high) / start_price tracked_high) * 100)"
    unfolding tracked_waiting_def [symmetric] by blast
  have b: "drop_rate tracked_waiting = 1"
    by (simp add: tracked_waiting_eq)
  from v p3 have "\<forall>ti'. tracking_stocks
               (snd (update_tracking_stock scenario_matrix False ''A'' 12325 None None
                       scenario_engine)) ''A'' = Some ti' \<longrightarrow>
             et_drop_rate ti'
               = Some (if et_high_price ti' > 0
                       then (et_high_price ti' - 12325) / et_high_price ti' * 100 else 0)"
    by blast
  then have c: "et_drop_rate (scenario_tracking\<lparr>et_current_price := 12325, et_status := READY,
                                   et_drop_rate := Some 15\<rparr>)
     = Some ((14500 - 12325) / 14500 * 100)"
    unfolding update_tracking_stock_scenario_deep
    by (simp add: scenario_engine_def scenario_tracking_def)
  from p1 p2 a b p3 c show ?thesis by blast
qed

subsection \<open>The stop-loss exit\<close>

lemma holding_position_eq:
  "holding_position =
     \<lparr> buy_stages = [\<lparr>bs_stage = Stage_1st, bs_price = 100, bs_quantity = 10, bs_amount = 1000\<rparr>],
       total_quantity = 10, total_amount = 1000, weighted_avg_price = 100,
       pos_current_price = 0, profit_rate = 0, profit_amount = 0,
       trailing_activated = False, trailing_high = 0, trailing_trigger_rate = 2,
       trailing_sell_rate = - 1, stop_loss_rate = - 2, pos_status = ''HOLDING'' \<rparr>"
  by (simp add: holding_position_def add_buy_stage_def calculate_weighted_avg_price_def
      PositionInfo_init_def)

lemma update_position_97:
  "update_position spec_profit_rate 97 holding_position =
     (Some STOP_LOSS, holding_position\<lparr>pos_current_price := 97, profit_rate := - 3,
                                        profit_amount := - 30\<rparr>)"
  unfolding holding_position_eq
  by (simp add: update_position_def update_current_price_def update_trailing_stop_def
      check_sell_conditions_def spec_profit_rate_def Let_def)

lemma update_position_96:
  "update_position spec_profit_rate 96
      (holding_position\<lparr>pos_current_price := 97, profit_rate := - 3, profit_amount := - 30\<rparr>) =
     (Some STOP_LOSS, holding_position\<lparr>pos_current_price := 96, profit_rate := - 4,
                                        profit_amount := - 40\<rparr>)"
  unfolding holding_position_eq
  by (simp add: update_position_def update_current_price_def update_trailing_stop_def
      check_sell_conditions_def spec_profit_rate_def Let_def)

text \<open>
  C5 as stated fails on \<open>PositionInfo.check_sell_conditions\<close>: a position bought at 100
  gives the stop-loss signal at 97 and gives it again at 96.
\<close>

theorem position_stop_loss_counterexample:
  "map fst (position_trace spec_profit_rate [97, 96] holding_position)
     = [Some STOP_LOSS, Some STOP_LOSS]"
  by (simp add: update_position_97 update_position_96 Let_def)

lemma stop_loss_executed_skip:
  "stop_loss_executed e code \<Longrightarrow> execute_stop_loss send_raises code reason e = e"
  by (cases "positions e code")
     (auto simp: stop_loss_executed_def get_or_def execute_stop_loss_skip)

lemma stop_loss_calls_skip:
  "stop_loss_executed e code \<Longrightarrow> stop_loss_calls rs code reason e = e"
  by (induction rs) (simp_all add: stop_loss_executed_skip)

lemma orders_sent_send:
  "orders_sent (send_stop_loss_order send_raises ord e) code \<le> orders_sent e code + 1"
  by (simp add: orders_sent_def send_stop_loss_order_def get_or_def split: option.splits)

lemma orders_sent_fields:
  "order_tr_req_queue e' = order_tr_req_queue e \<Longrightarrow> queue_manager e' = queue_manager e \<Longrightarrow>
     orders_sent e' code = orders_sent e code"
  by (simp add: orders_sent_def)

lemma execute_stop_loss_step:
  "(execute_stop_loss send_raises code reason e = e \<or>
    orders_sent (execute_stop_loss send_raises code reason e) code = orders_sent e code
      \<and> \<not> stop_loss_executed (execute_stop_loss send_raises code reason e) code
      \<and> \<not> stop_loss_executed e code \<or>
    \<not> stop_loss_executed e code
      \<and> stop_loss_executed (execute_stop_loss send_raises code reason e) code
      \<and> orders_sent (execute_stop_loss send_raises code reason e) code \<le> orders_sent e code + 1)"
proof (cases "positions e code")
  case None
  then have "execute_stop_loss send_raises code reason e
               = e\<lparr>tracking_stocks := (tracking_stocks e)(code := None)\<rparr>"
    by (simp add: execute_stop_loss_def)
  with None show ?thesis
    by (simp add: stop_loss_executed_def get_or_def orders_sent_def)
next
  case (Some position)
  show ?thesis
  proof (cases "get_or (ep_total_quantity position) 0 \<le> 0
                 \<or> get_or (ep_stop_loss_executed position) False")
    case True
    from execute_stop_loss_skip [OF Some True] show ?thesis by simp
  next
    case False
    then have f: "\<not> get_or (ep_total_quantity position) 0 \<le> 0"
      "\<not> get_or (ep_stop_loss_executed position) False" by simp_all
    define ord where "ord = \<lparr>so_stock_code = code,
                        so_quantity = get_or (ep_total_quantity position) 0,
                        so_reason = reason\<rparr>"
    define e1 where "e1 = send_stop_loss_order send_raises ord e"
    have o1: "orders_sent e1 code \<le> orders_sent e code + 1"
      unfolding e1_def by (rule orders_sent_send)
    have ex: "execute_stop_loss send_raises code reason e =
                (case tracking_stocks e1 code of
                        None \<Rightarrow> e1
                      | Some ti \<Rightarrow>
                          e1\<lparr>tracking_stocks :=
                               (tracking_stocks e1)(code \<mapsto> ti\<lparr>et_status := STOPPED\<rparr>)\<rparr>)
                \<lparr>positions := (positions e1)
                   (code \<mapsto> position\<lparr>ep_stop_loss_executed := Some True,
                                      ep_status := Some ''SELLING''\<rparr>)\<rparr>"
      unfolding execute_stop_loss_fire [OF Some f] Let_def e1_def ord_def
      by (simp split: option.splits)
    have a: "\<not> stop_loss_executed e code"
      using Some f by (simp add: stop_loss_executed_def)
    have b: "stop_loss_executed (execute_stop_loss send_raises code reason e) code"
      unfolding ex by (simp add: stop_loss_executed_def get_or_def)
    have "orders_sent (execute_stop_loss send_raises code reason e) code = orders_sent e1 code"
      unfolding ex by (rule orders_sent_fields) (simp_all split: option.splits)
    with o1 a b show ?thesis by simp
  qed
qed

lemma stop_loss_calls_at_most_one:
  "orders_sent (stop_loss_calls rs code reason e) code \<le> orders_sent e code + 1"
proof (induction rs arbitrary: e)
  case Nil
  show ?case by simp
next
  case (Cons r rs)
  define e' where "e' = execute_stop_loss r code reason e"
  from execute_stop_loss_step [of r code reason e]
  consider (same) "e' = e"
    | (quiet) "orders_sent e' code = orders_sent e code"
    | (fired) "stop_loss_executed e' code" "orders_sent e' code \<le> orders_sent e code + 1"
    unfolding e'_def by blast
  then show ?case
  proof cases
    case same
    with Cons.IH [of e] show ?thesis by (simp add: e'_def)
  next
    case quiet
    with Cons.IH [of e'] show ?thesis by (simp add: e'_def)
  next
    case fired
    from stop_loss_calls_skip [OF fired(1), of rs reason] fired(2)
    show ?thesis by (simp add: e'_def)
  qed
qed

lemma holding_engine_fired:
  "stop_loss_executed (execute_stop_loss False ''A'' ''max drop exceeded'' holding_engine) ''A'' \<and>
   orders_sent (execute_stop_loss False ''A'' ''max drop exceeded'' holding_engine) ''A'' = 1 \<and>
   orders_sent holding_engine ''A'' = 0 \<and> \<not> stop_loss_executed holding_engine ''A''"
  by (simp add: execute_stop_loss_def send_stop_loss_order_def holding_engine_def
      stop_loss_executed_def orders_sent_def get_or_def Let_def)

text \<open>
  C5, amended. \<open>execute_stop_loss\<close> is guarded by \<open>stop_loss_executed\<close>: once the flag
  is set a call changes nothing; a call that sends an order finds the flag unset and
  sets it; so any sequence of calls for a symbol sends at most one order, and none when
  the flag was set before. \<open>PositionInfo.check_sell_conditions\<close> has no such guard: it
  gives the stop-loss signal whenever the profit rate is at or under the stop-loss rate.
\<close>

theorem stop_loss_fires_once:
  "(stop_loss_executed e code \<longrightarrow> execute_stop_loss send_raises code reason e = e) \<and>
   (orders_sent (execute_stop_loss send_raises code reason e) code \<noteq> orders_sent e code \<longrightarrow>
      \<not> stop_loss_executed e code
      \<and> stop_loss_executed (execute_stop_loss send_raises code reason e) code) \<and>
   orders_sent (stop_loss_calls rs code reason e) code \<le> orders_sent e code + 1 \<and>
   (stop_loss_executed e code \<longrightarrow> stop_loss_calls rs code reason e = e) \<and>
   (profit_rate p \<le> stop_loss_rate p \<longrightarrow> check_sell_conditions p = Inr (Some STOP_LOSS))"
proof (intro conjI impI)
  assume "stop_loss_executed e code"
  then show "execute_stop_loss send_raises code reason e = e"
    by (rule stop_loss_executed_skip)
next
  assume "orders_sent (execute_stop_loss send_raises code reason e) code \<noteq> orders_sent e code"
  with execute_stop_loss_step [of send_raises code reason e]
  show "\<not> stop_loss_executed e code"
    and "stop_loss_executed (execute_stop_loss send_raises code reason e) code"
    by auto
next
  show "orders_sent (stop_loss_calls rs code reason e) code \<le> orders_sent e code + 1"
    by (rule stop_loss_calls_at_most_one)
next
  assume "stop_loss_executed e code"
  then show "stop_loss_calls rs code reason e = e"
    by (rule stop_loss_calls_skip)
next
  assume "profit_rate p \<le> stop_loss_rate p"
  then show "check_sell_conditions p = Inr (Some STOP_LOSS)"
    by (simp add: check_sell_conditions_def)
qed

theorem stop_loss_fires_once_witness:
  "\<not> stop_loss_executed holding_engine ''A'' \<and>
   stop_loss_executed (execute_stop_loss False ''A'' ''max drop exceeded'' holding_engine) ''A'' \<and>
   orders_sent (execute_stop_loss False ''A'' ''max drop exceeded'' holding_engine) ''A''
     \<noteq> orders_sent holding_engine ''A'' \<and>
   execute_stop_loss False ''A'' ''max drop exceeded''
      (execute_stop_loss False ''A'' ''max drop exceeded'' holding_engine)
     = execute_stop_loss False ''A'' ''max drop exceeded'' holding_engine \<and>
   orders_sent (stop_loss_calls [False, False] ''A'' ''max drop exceeded'' holding_engine) ''A'' \<le> 1 \<and>
   check_sell_conditions (holding_position\<lparr>profit_rate := - 3\<rparr>) = Inr (Some STOP_LOSS)"
proof -
  note f = holding_engine_fired
  note w1 = stop_loss_fires_once [where e = "execute_stop_loss False ''A'' ''max drop exceeded'' holding_engine"
      and code = "''A''" and send_raises = False and reason = "''max drop exceeded''"
      and rs = "[]" and p = "holding_position\<lparr>profit_rate := - 3\<rparr>"]
  note w2 = stop_loss_fires_once [where e = holding_engine
      and code = "''A''" and send_raises = False and reason = "''max drop exceeded''"
      and rs = "[False, False]" and p = "holding_position\<lparr>profit_rate := - 3\<rparr>"]
  have pr: "profit_rate (holding_position\<lparr>profit_rate := - 3\<rparr>)
              \<le> stop_loss_rate (holding_position\<lparr>profit_rate := - 3\<rparr>)"
    by (simp add: holding_position_eq)
  from w1 f have a: "execute_stop_loss False ''A'' ''max drop exceeded''
      (execute_stop_loss False ''A'' ''max drop exceeded'' holding_engine)
     = execute_stop_loss False ''A'' ''max drop exceeded'' holding_engine"
    by blast
  from w2 f have b: "orders_sent (stop_loss_calls [False, False] ''A'' ''max drop exceeded''
                        holding_engine) ''A'' \<le> 1"
    by simp
  from w2 pr have c: "check_sell_conditions (holding_position\<lparr>profit_rate := - 3\<rparr>)
                        = Inr (Some STOP_LOSS)"
    by blast
  from f have d: "orders_sent (execute_stop_loss False ''A'' ''max drop exceeded'' holding_engine) ''A''
     \<noteq> orders_sent holding_engine ''A''" by simp
  from f a b c d show ?thesis by blast
qed

subsection \<open>The weighted average price\<close>

lemma add_buy_stage_positive:
  assumes "0 \<le> total_quantity p" and "0 \<le> total_amount p"
    and "0 < bs_quantity s" and "0 < bs_amount s"
  shows "add_buy_stage s p =
           (None, p\<lparr>buy_stages := buy_stages p @ [s],
                    total_quantity := total_quantity p + bs_quantity s,
                    total_amount := total_amount p + bs_amount s,
                    weighted_avg_price := (total_amount p + bs_amount s)
                       / real_of_int (total_quantity p + bs_quantity s)\<rparr>)"
  using assms by (simp add: add_buy_stage_def calculate_weighted_avg_price_def)

lemma add_buy_stages_totals:
  assumes "\<forall>s \<in> set stages. 0 < bs_quantity s \<and> 0 < bs_amount s"
    and "0 \<le> total_quantity p" and "0 \<le> total_amount p"
  shows "\<exists>p'. add_buy_stages stages p = (None, p') \<and>
              total_quantity p' = total_quantity p + sum_list (map bs_quantity stages) \<and>
              total_amount p' = total_amount p + sum_list (map bs_amount stages) \<and>
              buy_stages p' = buy_stages p @ stages \<and>
              (stages \<noteq> [] \<longrightarrow>
                 0 < total_quantity p' \<and>
                 weighted_avg_price p' = total_amount p' / real_of_int (total_quantity p'))"
  using assms
proof (induction stages arbitrary: p)
  case Nil
  then show ?case by simp
next
  case (Cons s stages)
  define p1 where "p1 = p\<lparr>buy_stages := buy_stages p @ [s],
                    total_quantity := total_quantity p + bs_quantity s,
                    total_amount := total_amount p + bs_amount s,
                    weighted_avg_price := (total_amount p + bs_amount s)
                       / real_of_int (total_quantity p + bs_quantity s)\<rparr>"
  have s: "0 < bs_quantity s" "0 < bs_amount s" using Cons.prems(1) by simp_all
  have step: "add_buy_stage s p = (None, p1)"
    unfolding p1_def using Cons.prems(2,3) s by (rule add_buy_stage_positive)
  have p1: "0 \<le> total_quantity p1" "0 \<le> total_amount p1"
    "total_quantity p1 = total_quantity p + bs_quantity s"
    "total_amount p1 = total_amount p + bs_amount s"
    "buy_stages p1 = buy_stages p @ [s]"
    "0 < total_quantity p1"
    "weighted_avg_price p1 = total_amount p1 / real_of_int (total_quantity p1)"
    using Cons.prems(2,3) s by (simp_all add: p1_def)
  have rest: "\<forall>s \<in> set stages. 0 < bs_quantity s \<and> 0 < bs_amount s"
    using Cons.prems(1) by simp
  from Cons.IH [OF rest p1(1,2)] obtain p' where
    r: "add_buy_stages stages p1 = (None, p')"
      "total_quantity p' = total_quantity p1 + sum_list (map bs_quantity stages)"
      "total_amount p' = total_amount p1 + sum_list (map bs_amount stages)"
      "buy_stages p' = buy_stages p1 @ stages"
      "stages \<noteq> [] \<longrightarrow> 0 < total_quantity p' \<and>
         weighted_avg_price p' = total_amount p' / real_of_int (total_quantity p')"
    by blast
  have e: "stages = [] \<Longrightarrow> p' = p1" using r(1) by simp
  have "add_buy_stages (s # stages) p = (None, p')"
    using step r(1) by simp
  moreover have "total_quantity p' = total_quantity p + sum_list (map bs_quantity (s # stages))"
    using r(2) p1(3) by simp
  moreover have "total_amount p' = total_amount p + sum_list (map bs_amount (s # stages))"
    using r(3) p1(4) by simp
  moreover have "buy_stages p' = buy_stages p @ (s # stages)"
    using r(4) p1(5) by simp
  moreover have "0 < total_quantity p' \<and>
                 weighted_avg_price p' = total_amount p' / real_of_int (total_quantity p')"
    using r(5) e p1(6,7) by (cases "stages = []") simp_all
  ultimately show ?case by blast
qed

text \<open>
  C10. Take a \<open>PositionInfo\<close> whose totals are the sums over its recorded stages, every
  stage with a positive quantity and a positive amount (the new object is one), and any
  non-empty sequence of \<open>add_buy_stage\<close> calls with positive quantities and amounts.
  No call divides by zero, and the weighted average price ends as the sum of all stage
  amounts over the sum of all stage quantities. The guard tests the amount only: a
  stage of quantity 0 and a positive amount on the new object raises
  \<open>ZeroDivisionError\<close>.
\<close>

theorem weighted_avg_price_of_stages:
  assumes "\<forall>s \<in> set (buy_stages p @ stages). 0 < bs_quantity s \<and> 0 < bs_amount s"
    and "total_quantity p = sum_list (map bs_quantity (buy_stages p))"
    and "total_amount p = sum_list (map bs_amount (buy_stages p))"
    and "stages \<noteq> []"
  shows "fst (add_buy_stages stages p) = None \<and>
         buy_stages (snd (add_buy_stages stages p)) = buy_stages p @ stages \<and>
         sum_list (map bs_quantity (buy_stages (snd (add_buy_stages stages p)))) > 0 \<and>
         weighted_avg_price (snd (add_buy_stages stages p))
           = sum_list (map bs_amount (buy_stages (snd (add_buy_stages stages p))))
             / real_of_int (sum_list (map bs_quantity (buy_stages (snd (add_buy_stages stages p))))) \<and>
         fst (add_buy_stage \<lparr>bs_stage = Stage_1st, bs_price = 100, bs_quantity = 0,
                             bs_amount = 1000\<rparr> PositionInfo_init) = Some ZeroDivisionError"
proof -
  have q0: "0 \<le> sum_list (map bs_quantity (buy_stages p))"
    using assms(1) by (intro sum_list_nonneg) (auto intro: less_imp_le)
  have a0: "0 \<le> sum_list (map bs_amount (buy_stages p))"
    using assms(1) by (intro sum_list_nonneg) (auto intro: less_imp_le)
  have st: "\<forall>s \<in> set stages. 0 < bs_quantity s \<and> 0 < bs_amount s"
    using assms(1) by simp
  from add_buy_stages_totals [OF st, of p] q0 a0 assms(2,3) obtain p' where
    r: "add_buy_stages stages p = (None, p')"
      "total_quantity p' = total_quantity p + sum_list (map bs_quantity stages)"
      "total_amount p' = total_amount p + sum_list (map bs_amount stages)"
      "buy_stages p' = buy_stages p @ stages"
      "stages \<noteq> [] \<longrightarrow> 0 < total_quantity p' \<and>
         weighted_avg_price p' = total_amount p' / real_of_int (total_quantity p')"
    by auto
  have tq: "total_quantity p' = sum_list (map bs_quantity (buy_stages p'))"
    using r(2,4) assms(2) by simp
  have ta: "total_amount p' = sum_list (map bs_amount (buy_stages p'))"
    using r(3,4) assms(3) by simp
  have z: "fst (add_buy_stage \<lparr>bs_stage = Stage_1st, bs_price = 100, bs_quantity = 0,
                             bs_amount = 1000\<rparr> PositionInfo_init) = Some ZeroDivisionError"
    by (simp add: add_buy_stage_def calculate_weighted_avg_price_def PositionInfo_init_def)
  show ?thesis
    using r(1,4,5) assms(4) tq ta z by simp
qed

theorem weighted_avg_price_of_stages_witness:
  "weighted_avg_price
     (snd (add_buy_stages
             [\<lparr>bs_stage = Stage_1st, bs_price = 100, bs_quantity = 10, bs_amount = 1000\<rparr>,
              \<lparr>bs_stage = Stage_2nd, bs_price = 90, bs_quantity = 20, bs_amount = 1800\<rparr>]
             PositionInfo_init))
     = 2800 / 30 \<and>
   fst (add_buy_stages
          [\<lparr>bs_stage = Stage_1st, bs_price = 100, bs_quantity = 10, bs_amount = 1000\<rparr>,
           \<lparr>bs_stage = Stage_2nd, bs_price = 90, bs_quantity = 20, bs_amount = 1800\<rparr>]
          PositionInfo_init) = None"
proof -
  define stages where "stages =
     [\<lparr>bs_stage = Stage_1st, bs_price = 100, bs_quantity = 10, bs_amount = 1000\<rparr>,
      \<lparr>bs_stage = Stage_2nd, bs_price = 90, bs_quantity = 20, bs_amount = (1800::real)\<rparr>]"
  have h1: "\<forall>s \<in> set (buy_stages PositionInfo_init @ stages). 0 < bs_quantity s \<and> 0 < bs_amount s"
    by (simp add: PositionInfo_init_def stages_def)
  have h2: "total_quantity PositionInfo_init = sum_list (map bs_quantity (buy_stages PositionInfo_init))"
    by (simp add: PositionInfo_init_def)
  have h3: "total_amount PositionInfo_init = sum_list (map bs_amount (buy_stages PositionInfo_init))"
    by (simp add: PositionInfo_init_def)
  have h4: "stages \<noteq> []" by (simp add: stages_def)
  note w = weighted_avg_price_of_stages [OF h1 h2 h3 h4]
  from w have b: "buy_stages (snd (add_buy_stages stages PositionInfo_init))
                    = buy_stages PositionInfo_init @ stages" by blast
  from w have "weighted_avg_price (snd (add_buy_stages stages PositionInfo_init))
           = sum_list (map bs_amount (buy_stages (snd (add_buy_stages stages PositionInfo_init))))
             / real_of_int (sum_list (map bs_quantity
                 (buy_stages (snd (add_buy_stages stages PositionInfo_init)))))" by blast
  then have a: "weighted_avg_price (snd (add_buy_stages stages PositionInfo_init)) = 2800 / 30"
    unfolding b by (simp add: PositionInfo_init_def stages_def)
  from w have c: "fst (add_buy_stages stages PositionInfo_init) = None" by blast
  from a c show ?thesis unfolding stages_def by blast
qed

subsection \<open>The trailing stop\<close>

lemma update_trailing_stop_fields:
  "trailing_activated (update_trailing_stop p)
     = (trailing_activated p \<or> profit_rate p \<ge> trailing_trigger_rate p)"
  "\<not> trailing_activated p \<Longrightarrow> trailing_activated (update_trailing_stop p) \<Longrightarrow>
     trailing_high (update_trailing_stop p) = pos_current_price p"
  "trailing_activated p \<Longrightarrow>
     trailing_high (update_trailing_stop p) = max (trailing_high p) (pos_current_price p)"
  "\<not> trailing_activated (update_trailing_stop p) \<Longrightarrow>
     trailing_high (update_trailing_stop p) = trailing_high p"
  "profit_rate (update_trailing_stop p) = profit_rate p"
  "pos_current_price (update_trailing_stop p) = pos_current_price p"
  "trailing_trigger_rate (update_trailing_stop p) = trailing_trigger_rate p"
  by (auto simp: update_trailing_stop_def Let_def)

lemma update_current_price_fields:
  "trailing_activated (update_current_price calc cur p)
     = (trailing_activated p
        \<or> profit_rate (update_current_price calc cur p) \<ge> trailing_trigger_rate p)"
  "\<not> trailing_activated p \<Longrightarrow> trailing_activated (update_current_price calc cur p) \<Longrightarrow>
     trailing_high (update_current_price calc cur p) = cur"
  "trailing_activated p \<Longrightarrow>
     trailing_high (update_current_price calc cur p) = max (trailing_high p) cur"
  "trailing_trigger_rate (update_current_price calc cur p) = trailing_trigger_rate p"
  "pos_current_price (update_current_price calc cur p) = cur"
  by (simp_all add: update_current_price_def Let_def update_trailing_stop_fields)

lemma check_sell_conditions_trailing:
  "check_sell_conditions p = Inr (Some TRAILING_SELL) \<Longrightarrow> trailing_activated p"
  by (simp add: check_sell_conditions_def Let_def split: if_splits)

lemma update_position_fields:
  "snd (update_position calc cur p) = update_current_price calc cur p"
  "fst (update_position calc cur p) = Some TRAILING_SELL \<Longrightarrow>
     trailing_activated (snd (update_position calc cur p))"
  by (auto simp: update_position_def Let_def split: sum.splits
      dest: check_sell_conditions_trailing)

lemma position_trace_Cons_mem:
  assumes "(sig, q) \<in> set (position_trace calc (cur # prices) p)"
  shows "(q = update_current_price calc cur p \<and> sig = fst (update_position calc cur p))
         \<or> (sig, q) \<in> set (position_trace calc prices (update_current_price calc cur p))"
proof -
  from assms have
    "(sig, q) = update_position calc cur p
       \<or> (sig, q) \<in> set (position_trace calc prices (snd (update_position calc cur p)))"
    by (simp add: Let_def)
  then show ?thesis
  proof
    assume e: "(sig, q) = update_position calc cur p"
    have "fst (sig, q) = sig" "snd (sig, q) = q" by simp_all
    with e have "fst (update_position calc cur p) = sig" "snd (update_position calc cur p) = q"
      by simp_all
    then show ?thesis by (simp add: update_position_fields(1))
  next
    assume "(sig, q) \<in> set (position_trace calc prices (snd (update_position calc cur p)))"
    then show ?thesis by (simp add: update_position_fields(1))
  qed
qed

lemma position_trace_signal:
  "(sig, q) \<in> set (position_trace calc prices p) \<Longrightarrow> sig = Some TRAILING_SELL \<Longrightarrow>
     trailing_activated q"
proof (induction prices arbitrary: p)
  case Nil
  then show ?case by simp
next
  case (Cons cur prices)
  from position_trace_Cons_mem [OF Cons.prems(1)] show ?case
  proof
    assume "q = update_current_price calc cur p \<and> sig = fst (update_position calc cur p)"
    with update_position_fields [of calc cur p] Cons.prems(2) show ?thesis by simp
  next
    assume "(sig, q) \<in> set (position_trace calc prices (update_current_price calc cur p))"
    with Cons.IH Cons.prems(2) show ?thesis by blast
  qed
qed

lemma position_trace_active:
  "trailing_activated p \<Longrightarrow> (sig, q) \<in> set (position_trace calc prices p) \<Longrightarrow>
     trailing_activated q \<and> trailing_high p \<le> trailing_high q"
proof (induction prices arbitrary: p)
  case Nil
  then show ?case by simp
next
  case (Cons cur prices)
  define p1 where "p1 = update_current_price calc cur p"
  have p1: "trailing_activated p1" "trailing_high p \<le> trailing_high p1"
    using Cons.prems(1) update_current_price_fields(1,3) [where p = p and calc = calc and cur = cur]
    by (simp_all add: p1_def)
  from position_trace_Cons_mem [OF Cons.prems(2)] have
    "q = p1 \<or> (sig, q) \<in> set (position_trace calc prices p1)"
    by (auto simp: p1_def)
  then show ?case
  proof
    assume "q = p1"
    with p1 show ?thesis by simp
  next
    assume "(sig, q) \<in> set (position_trace calc prices p1)"
    from Cons.IH [OF p1(1) this] p1(2) show ?thesis by simp
  qed
qed

lemma position_trace_highs_sorted:
  "sorted (map (\<lambda>r. trailing_high (snd r))
             (filter (\<lambda>r. trailing_activated (snd r)) (position_trace calc prices p)))"
proof (induction prices arbitrary: p)
  case Nil
  show ?case by simp
next
  case (Cons cur prices)
  define r where "r = update_position calc cur p"
  have tr: "position_trace calc (cur # prices) p = r # position_trace calc prices (snd r)"
    by (simp add: r_def Let_def)
  show ?case
  proof (cases "trailing_activated (snd r)")
    case True
    have "\<forall>x \<in> set (position_trace calc prices (snd r)). trailing_high (snd r) \<le> trailing_high (snd x)"
      using position_trace_active [OF True] by (metis prod.collapse)
    with True Cons.IH [of "snd r"] show ?thesis
      unfolding tr by auto
  next
    case False
    with Cons.IH [of "snd r"] show ?thesis
      unfolding tr by simp
  qed
qed

lemma position_trace_trigger:
  "(sig, q) \<in> set (position_trace calc prices p) \<Longrightarrow>
     trailing_trigger_rate q = trailing_trigger_rate p"
proof (induction prices arbitrary: p)
  case Nil
  then show ?case by simp
next
  case (Cons cur prices)
  from position_trace_Cons_mem [OF Cons.prems] have
    "q = update_current_price calc cur p
       \<or> (sig, q) \<in> set (position_trace calc prices (update_current_price calc cur p))"
    by auto
  then show ?case
    using Cons.IH [of "update_current_price calc cur p"]
      update_current_price_fields(4) [where calc = calc and cur = cur and p = p]
    by auto
qed

text \<open>From an inactive position, the trailing stop is active after a run exactly when some
  update of the run stored a profit rate at or above the trigger.\<close>

lemma position_trace_activation:
  assumes "\<not> trailing_activated p" and "prices \<noteq> []"
  shows "trailing_activated (snd (last (position_trace calc prices p)))
           \<longleftrightarrow> (\<exists>r \<in> set (position_trace calc prices p).
                  profit_rate (snd r) \<ge> trailing_trigger_rate p)"
  using assms
proof (induction prices arbitrary: p)
  case Nil
  then show ?case by simp
next
  case (Cons cur prices)
  define p1 where "p1 = update_current_price calc cur p"
  define r where "r = update_position calc cur p"
  have sr: "snd r = p1" by (simp add: r_def p1_def update_position_fields(1))
  have tr: "position_trace calc (cur # prices) p = r # position_trace calc prices p1"
    by (simp add: r_def p1_def Let_def update_position_fields(1))
  have act: "trailing_activated p1 \<longleftrightarrow> profit_rate p1 \<ge> trailing_trigger_rate p"
    using Cons.prems(1) update_current_price_fields(1) [where calc = calc and cur = cur and p = p]
    by (simp add: p1_def)
  have tg: "trailing_trigger_rate p1 = trailing_trigger_rate p"
    by (simp add: p1_def update_current_price_fields(4))
  show ?case
  proof (cases "prices = []")
    case True
    then show ?thesis unfolding tr using act sr by simp
  next
    case False
    then have ne: "position_trace calc prices p1 \<noteq> []"
      by (cases prices) (simp_all add: Let_def)
    show ?thesis
    proof (cases "trailing_activated p1")
      case True
      have "last (position_trace calc prices p1) \<in> set (position_trace calc prices p1)"
        using ne by simp
      with position_trace_active [OF True, of "fst (last (position_trace calc prices p1))"
          "snd (last (position_trace calc prices p1))" calc prices]
      have "trailing_activated (snd (last (position_trace calc prices p1)))" by simp
      moreover have "profit_rate (snd r) \<ge> trailing_trigger_rate p"
        using True act sr by simp
      ultimately show ?thesis unfolding tr using ne by auto
    next
      case nact: False
      then have "\<not> profit_rate (snd r) \<ge> trailing_trigger_rate p" using act sr by simp
      with Cons.IH [OF nact False] tg show ?thesis
        unfolding tr using ne by auto
    qed
  qed
qed

lemma trailing_stop_check_activation:
  "get_or (ep_trailing_activated (snd (trailing_stop_check (Some c) position))) False
     \<longleftrightarrow> get_or (ep_trailing_activated position) False
          \<or> ep_profit_rate position \<ge> cfg_trailing_trigger_rate c"
  by (simp add: trailing_stop_check_def Let_def get_or_def split: option.splits)

lemma trailing_stop_check_first_high:
  "\<not> get_or (ep_trailing_activated position) False \<Longrightarrow>
   get_or (ep_trailing_activated (snd (trailing_stop_check (Some c) position))) False \<Longrightarrow>
     ep_trailing_high (snd (trailing_stop_check (Some c) position))
       = Some (ep_current_price position)"
  by (simp add: trailing_stop_check_def Let_def get_or_def split: option.splits if_splits)

lemma trailing_stop_check_high_mono:
  "get_or (ep_trailing_activated position) False \<Longrightarrow> ep_trailing_high position = Some h \<Longrightarrow>
     ep_trailing_high (snd (trailing_stop_check (Some c) position))
       = Some (max h (ep_current_price position))"
  by (simp add: trailing_stop_check_def Let_def get_or_def max_def split: option.splits)

lemma trailing_stop_check_signal:
  "fst (trailing_stop_check cfg position) = Some TRAILING_SELL \<Longrightarrow>
     get_or (ep_trailing_activated (snd (trailing_stop_check cfg position))) False"
  by (cases cfg)
     (auto simp: trailing_stop_check_def Let_def get_or_def split: option.splits if_splits)

lemma engine_check_sell_conditions_signal:
  "fst (engine_check_sell_conditions cfg tracking_info position) = Some TRAILING_SELL \<Longrightarrow>
     get_or (ep_trailing_activated
               (snd (engine_check_sell_conditions cfg tracking_info position))) False"
  by (cases "stop_loss_signal cfg tracking_info position")
     (simp_all add: engine_check_sell_conditions_def trailing_stop_check_signal)

lemma holding_position_102:
  "update_position spec_profit_rate 102 holding_position =
     (None, holding_position\<lparr>pos_current_price := 102, profit_rate := 2, profit_amount := 20,
                               trailing_activated := True, trailing_high := 102\<rparr>)"
  unfolding holding_position_eq
  by (simp add: update_position_def update_current_price_def update_trailing_stop_def
      check_sell_conditions_def spec_profit_rate_def Let_def)

lemma holding_position_200:
  "update_position spec_profit_rate 200
     (holding_position\<lparr>pos_current_price := 102, profit_rate := 2, profit_amount := 20,
                        trailing_activated := True, trailing_high := 102\<rparr>) =
     (None, holding_position\<lparr>pos_current_price := 200, profit_rate := 100, profit_amount := 1000,
                               trailing_activated := True, trailing_high := 200\<rparr>)"
  unfolding holding_position_eq
  by (simp add: update_position_def update_current_price_def update_trailing_stop_def
      check_sell_conditions_def spec_profit_rate_def Let_def)

lemma holding_position_198:
  "update_position spec_profit_rate (198)
     (holding_position\<lparr>pos_current_price := 200, profit_rate := 100, profit_amount := 1000,
                        trailing_activated := True, trailing_high := 200\<rparr>) =
     (Some TRAILING_SELL,
       holding_position\<lparr>pos_current_price := 198, profit_rate := 98,
                         profit_amount := 980,
                         trailing_activated := True, trailing_high := 200\<rparr>)"
  unfolding holding_position_eq
  by (simp add: update_position_def update_current_price_def update_trailing_stop_def
      check_sell_conditions_def spec_profit_rate_def Let_def)

lemma holding_position_run:
  "position_trace spec_profit_rate [102, 200, 198] holding_position =
     [(None, holding_position\<lparr>pos_current_price := 102, profit_rate := 2, profit_amount := 20,
                               trailing_activated := True, trailing_high := 102\<rparr>),
      (None, holding_position\<lparr>pos_current_price := 200, profit_rate := 100, profit_amount := 1000,
                               trailing_activated := True, trailing_high := 200\<rparr>),
      (Some TRAILING_SELL,
       holding_position\<lparr>pos_current_price := 198, profit_rate := 98,
                         profit_amount := 980,
                         trailing_activated := True, trailing_high := 200\<rparr>)]"
  by (simp add: holding_position_102 holding_position_200 holding_position_198 Let_def)

lemma profitable_position_check:
  "trailing_stop_check (Some scenario_config) profitable_position =
     (None, profitable_position\<lparr>ep_trailing_activated := Some True,
                                 ep_trailing_high := Some 13700\<rparr>)"
  by (simp add: trailing_stop_check_def scenario_config_def profitable_position_def
      get_or_def Let_def)

lemma engine_check_sell_conditions_no_stop:
  "\<not> stop_loss_signal cfg tracking_info position \<Longrightarrow>
     engine_check_sell_conditions cfg tracking_info position = trailing_stop_check cfg position"
  by (simp add: engine_check_sell_conditions_def)

lemma engine_check_sell_conditions_unchanged:
  "stop_loss_signal cfg tracking_info position \<or> cfg = None \<Longrightarrow>
     snd (engine_check_sell_conditions cfg tracking_info position) = position"
  by (auto simp: engine_check_sell_conditions_def trailing_stop_check_def)

lemma engine_check_sell_conditions_first_high:
  assumes "\<not> get_or (ep_trailing_activated position) False"
    and "get_or (ep_trailing_activated
                   (snd (engine_check_sell_conditions cfg tracking_info position))) False"
  shows "ep_trailing_high (snd (engine_check_sell_conditions cfg tracking_info position))
           = Some (ep_current_price position)"
proof (cases "stop_loss_signal cfg tracking_info position \<or> cfg = None")
  case True
  from engine_check_sell_conditions_unchanged [OF True] assms show ?thesis by simp
next
  case False
  then obtain c where c: "cfg = Some c" and ns: "\<not> stop_loss_signal cfg tracking_info position"
    by auto
  have eq: "engine_check_sell_conditions cfg tracking_info position
              = trailing_stop_check (Some c) position"
    using engine_check_sell_conditions_no_stop [OF ns] c by simp
  from assms show ?thesis
    unfolding eq by (rule trailing_stop_check_first_high)
qed

lemma engine_check_sell_conditions_high_mono:
  assumes "get_or (ep_trailing_activated position) False"
    and "ep_trailing_high position = Some h"
  shows "get_or (ep_trailing_activated
                   (snd (engine_check_sell_conditions cfg tracking_info position))) False \<and>
         (\<exists>h'. ep_trailing_high (snd (engine_check_sell_conditions cfg tracking_info position))
                 = Some h' \<and> h \<le> h')"
proof (cases "stop_loss_signal cfg tracking_info position \<or> cfg = None")
  case True
  from engine_check_sell_conditions_unchanged [OF True] assms show ?thesis by simp
next
  case False
  then obtain c where c: "cfg = Some c" and ns: "\<not> stop_loss_signal cfg tracking_info position"
    by auto
  have "get_or (ep_trailing_activated (snd (trailing_stop_check (Some c) position))) False"
    using assms(1) by (simp add: trailing_stop_check_activation)
  moreover have "ep_trailing_high (snd (trailing_stop_check (Some c) position))
                   = Some (max h (ep_current_price position))"
    using assms by (rule trailing_stop_check_high_mono)
  moreover have "engine_check_sell_conditions cfg tracking_info position
                   = trailing_stop_check (Some c) position"
    using engine_check_sell_conditions_no_stop [OF ns] c by simp
  ultimately show ?thesis by simp
qed

lemma profitable_position_no_stop:
  "\<not> stop_loss_signal (Some scenario_config) (Some scenario_tracking) profitable_position"
  by (simp add: stop_loss_signal_def scenario_config_def scenario_tracking_def
      profitable_position_def get_or_def Let_def)

lemma profitable_position_sell_conditions:
  "engine_check_sell_conditions (Some scenario_config) (Some scenario_tracking) profitable_position =
     (None, profitable_position\<lparr>ep_trailing_activated := Some True,
                                 ep_trailing_high := Some 13700\<rparr>)"
  by (simp add: engine_check_sell_conditions_no_stop [OF profitable_position_no_stop]
      profitable_position_check)

text \<open>
  C6. On \<open>PositionInfo\<close>, along every sequence of price updates: a trailing-sell signal
  comes only from a state with the trailing stop active; an update makes it active
  exactly when it was active before or the stored profit rate is at or above the
  trigger, so from an inactive position it is active after a run exactly when some update
  of the run reached the trigger; the update that activates it sets the trailing high to
  the current price; and over the active states of a run the trailing high never
  decreases. On the engine's \<open>check_sell_conditions\<close>, for every position dict: a
  trailing-sell signal comes only with the trailing stop active; a call that activates
  the trailing stop sets the trailing high to the current price; a trailing stop that is
  active stays active and its stored high never decreases; and when the stop-loss test
  of the same call does not fire and a configuration is present, the call makes the
  trailing stop active exactly when it was active before or the profit rate is at or
  above the trigger, and raises an active high to the maximum of the high and the
  current price.
\<close>

theorem trailing_stop_invariants:
  "(\<forall>r \<in> set (position_trace calc prices p).
      fst r = Some TRAILING_SELL \<longrightarrow> trailing_activated (snd r)) \<and>
   (trailing_activated (update_current_price calc cur p)
      \<longleftrightarrow> trailing_activated p
           \<or> profit_rate (update_current_price calc cur p) \<ge> trailing_trigger_rate p) \<and>
   (\<not> trailing_activated p \<and> trailing_activated (update_current_price calc cur p)
      \<longrightarrow> trailing_high (update_current_price calc cur p) = cur) \<and>
   (\<not> trailing_activated p \<and> prices \<noteq> [] \<longrightarrow>
      (trailing_activated (snd (last (position_trace calc prices p)))
         \<longleftrightarrow> (\<exists>r \<in> set (position_trace calc prices p).
                profit_rate (snd r) \<ge> trailing_trigger_rate p))) \<and>
   (trailing_activated p \<longrightarrow>
      (\<forall>r \<in> set (position_trace calc prices p).
         trailing_activated (snd r) \<and> trailing_high p \<le> trailing_high (snd r))) \<and>
   sorted (map (\<lambda>r. trailing_high (snd r))
             (filter (\<lambda>r. trailing_activated (snd r)) (position_trace calc prices p))) \<and>
   (fst (engine_check_sell_conditions cfg tracking_info position) = Some TRAILING_SELL \<longrightarrow>
      get_or (ep_trailing_activated
                (snd (engine_check_sell_conditions cfg tracking_info position))) False) \<and>
   (\<not> stop_loss_signal cfg tracking_info position \<and> cfg = Some c \<longrightarrow>
      (get_or (ep_trailing_activated
                 (snd (engine_check_sell_conditions cfg tracking_info position))) False
         \<longleftrightarrow> get_or (ep_trailing_activated position) False
              \<or> ep_profit_rate position \<ge> cfg_trailing_trigger_rate c)) \<and>
   (\<not> get_or (ep_trailing_activated position) False
      \<and> get_or (ep_trailing_activated
                  (snd (engine_check_sell_conditions cfg tracking_info position))) False
      \<longrightarrow> ep_trailing_high (snd (engine_check_sell_conditions cfg tracking_info position))
            = Some (ep_current_price position)) \<and>
   (get_or (ep_trailing_activated position) False \<and> ep_trailing_high position = Some h
      \<longrightarrow> get_or (ep_trailing_activated
                   (snd (engine_check_sell_conditions cfg tracking_info position))) False
          \<and> (\<exists>h'. ep_trailing_high (snd (engine_check_sell_conditions cfg tracking_info position))
                    = Some h' \<and> h \<le> h')) \<and>
   (\<not> stop_loss_signal cfg tracking_info position \<and> cfg = Some c
      \<and> get_or (ep_trailing_activated position) False \<and> ep_trailing_high position = Some h
      \<longrightarrow> ep_trailing_high (snd (engine_check_sell_conditions cfg tracking_info position))
            = Some (max h (ep_current_price position)))"
proof (intro conjI)
  show "\<forall>r \<in> set (position_trace calc prices p).
          fst r = Some TRAILING_SELL \<longrightarrow> trailing_activated (snd r)"
    using position_trace_signal [of _ _ calc prices p] by (metis prod.collapse)
  show "trailing_activated (update_current_price calc cur p)
          \<longleftrightarrow> trailing_activated p
               \<or> profit_rate (update_current_price calc cur p) \<ge> trailing_trigger_rate p"
    by (rule update_current_price_fields(1))
  show "\<not> trailing_activated p \<and> trailing_activated (update_current_price calc cur p)
          \<longrightarrow> trailing_high (update_current_price calc cur p) = cur"
    using update_current_price_fields(2) [where calc = calc and cur = cur and p = p] by blast
  show "\<not> trailing_activated p \<and> prices \<noteq> [] \<longrightarrow>
          (trailing_activated (snd (last (position_trace calc prices p)))
             \<longleftrightarrow> (\<exists>r \<in> set (position_trace calc prices p).
                    profit_rate (snd r) \<ge> trailing_trigger_rate p))"
    using position_trace_activation [of p prices calc] by blast
  show "trailing_activated p \<longrightarrow>
          (\<forall>r \<in> set (position_trace calc prices p).
             trailing_activated (snd r) \<and> trailing_high p \<le> trailing_high (snd r))"
    using position_trace_active [of p _ _ calc prices] by (metis prod.collapse)
  show "sorted (map (\<lambda>r. trailing_high (snd r))
             (filter (\<lambda>r. trailing_activated (snd r)) (position_trace calc prices p)))"
    by (rule position_trace_highs_sorted)
  show "fst (engine_check_sell_conditions cfg tracking_info position) = Some TRAILING_SELL \<longrightarrow>
          get_or (ep_trailing_activated
                    (snd (engine_check_sell_conditions cfg tracking_info position))) False"
    using engine_check_sell_conditions_signal by blast
  show "\<not> stop_loss_signal cfg tracking_info position \<and> cfg = Some c \<longrightarrow>
          (get_or (ep_trailing_activated
                     (snd (engine_check_sell_conditions cfg tracking_info position))) False
             \<longleftrightarrow> get_or (ep_trailing_activated position) False
                  \<or> ep_profit_rate position \<ge> cfg_trailing_trigger_rate c)"
    using engine_check_sell_conditions_no_stop [of cfg tracking_info position]
      trailing_stop_check_activation [of c position]
    by auto
  show "\<not> get_or (ep_trailing_activated position) False
          \<and> get_or (ep_trailing_activated
                      (snd (engine_check_sell_conditions cfg tracking_info position))) False
          \<longrightarrow> ep_trailing_high (snd (engine_check_sell_conditions cfg tracking_info position))
                = Some (ep_current_price position)"
    using engine_check_sell_conditions_first_high by blast
  show "get_or (ep_trailing_activated position) False \<and> ep_trailing_high position = Some h
          \<longrightarrow> get_or (ep_trailing_activated
                       (snd (engine_check_sell_conditions cfg tracking_info position))) False
              \<and> (\<exists>h'. ep_trailing_high
                          (snd (engine_check_sell_conditions cfg tracking_info position))
                        = Some h' \<and> h \<le> h')"
    using engine_check_sell_conditions_high_mono by blast
  show "\<not> stop_loss_signal cfg tracking_info position \<and> cfg = Some c
          \<and> get_or (ep_trailing_activated position) False \<and> ep_trailing_high position = Some h
          \<longrightarrow> ep_trailing_high (snd (engine_check_sell_conditions cfg tracking_info position))
                = Some (max h (ep_current_price position))"
    using engine_check_sell_conditions_no_stop [of cfg tracking_info position]
      trailing_stop_check_high_mono [of position h c]
    by auto
qed

theorem trailing_stop_invariants_witness:
  "\<not> trailing_activated holding_position \<and>
   map fst (position_trace spec_profit_rate [102, 200, 198] holding_position)
     = [None, None, Some TRAILING_SELL] \<and>
   map (\<lambda>r. trailing_high (snd r))
       (position_trace spec_profit_rate [102, 200, 198] holding_position)
     = [102, 200, 200] \<and>
   trailing_activated (snd (last (position_trace spec_profit_rate [102, 200, 198]
                                    holding_position))) \<and>
   \<not> stop_loss_signal (Some scenario_config) (Some scenario_tracking) profitable_position \<and>
   \<not> get_or (ep_trailing_activated profitable_position) False \<and>
   cfg_trailing_trigger_rate scenario_config \<le> ep_profit_rate profitable_position \<and>
   get_or (ep_trailing_activated
             (snd (engine_check_sell_conditions (Some scenario_config) (Some scenario_tracking)
                     profitable_position))) False \<and>
   ep_trailing_high (snd (engine_check_sell_conditions (Some scenario_config)
                            (Some scenario_tracking) profitable_position))
     = Some (ep_current_price profitable_position) \<and>
   ep_trailing_high
       (snd (engine_check_sell_conditions (Some scenario_config) (Some scenario_tracking)
               (profitable_position\<lparr>ep_trailing_activated := Some True,
                                      ep_trailing_high := Some 13500\<rparr>)))
     = Some 13700"
proof -
  note w = trailing_stop_invariants [where calc = spec_profit_rate
      and prices = "[102, 200, 198]" and p = holding_position and cur = 102
      and cfg = "Some scenario_config" and tracking_info = "Some scenario_tracking"
      and position = profitable_position and c = scenario_config and h = 13300]
  note v = trailing_stop_invariants [where calc = spec_profit_rate
      and prices = "[102, 200, 198]" and p = holding_position and cur = 102
      and cfg = "Some scenario_config" and tracking_info = "Some scenario_tracking"
      and position = "profitable_position\<lparr>ep_trailing_activated := Some True,
                                             ep_trailing_high := Some 13500\<rparr>"
      and c = scenario_config and h = 13500]
  have n: "\<not> trailing_activated holding_position"
    by (simp add: holding_position_eq)
  have ne: "[102, 200, 198] \<noteq> ([] :: real list)" by simp
  have ex: "\<exists>r \<in> set (position_trace spec_profit_rate [102, 200, 198] holding_position).
               profit_rate (snd r) \<ge> trailing_trigger_rate holding_position"
    unfolding holding_position_run by (simp add: holding_position_eq)
  note w4 = w [THEN conjunct2, THEN conjunct2, THEN conjunct2, THEN conjunct1]
  note w8 = w [THEN conjunct2, THEN conjunct2, THEN conjunct2, THEN conjunct2, THEN conjunct2,
      THEN conjunct2, THEN conjunct2, THEN conjunct1]
  note w9 = w [THEN conjunct2, THEN conjunct2, THEN conjunct2, THEN conjunct2, THEN conjunct2,
      THEN conjunct2, THEN conjunct2, THEN conjunct2, THEN conjunct1]
  note v11 = v [THEN conjunct2, THEN conjunct2, THEN conjunct2, THEN conjunct2, THEN conjunct2,
      THEN conjunct2, THEN conjunct2, THEN conjunct2, THEN conjunct2, THEN conjunct2]
  from w4 n ne ex have a: "trailing_activated (snd (last (position_trace spec_profit_rate
                            [102, 200, 198] holding_position)))"
    by blast
  have b: "map fst (position_trace spec_profit_rate [102, 200, 198] holding_position)
             = [None, None, Some TRAILING_SELL]"
    unfolding holding_position_run by simp
  have c: "map (\<lambda>r. trailing_high (snd r))
             (position_trace spec_profit_rate [102, 200, 198] holding_position)
             = [102, 200, 200]"
    unfolding holding_position_run by simp
  have ns: "\<not> stop_loss_signal (Some scenario_config) (Some scenario_tracking)
               profitable_position"
    by (simp add: stop_loss_signal_def scenario_config_def scenario_tracking_def
        profitable_position_def get_or_def Let_def)
  have d: "\<not> get_or (ep_trailing_activated profitable_position) False"
    by (simp add: profitable_position_def get_or_def)
  have t: "cfg_trailing_trigger_rate scenario_config \<le> ep_profit_rate profitable_position"
    by (simp add: scenario_config_def profitable_position_def)
  from w8 ns t have e: "get_or (ep_trailing_activated
                     (snd (engine_check_sell_conditions (Some scenario_config)
                             (Some scenario_tracking) profitable_position))) False"
    by blast
  from w9 d e have f: "ep_trailing_high (snd (engine_check_sell_conditions (Some scenario_config)
                        (Some scenario_tracking) profitable_position))
                        = Some (ep_current_price profitable_position)"
    by blast
  have ns': "\<not> stop_loss_signal (Some scenario_config) (Some scenario_tracking)
                (profitable_position\<lparr>ep_trailing_activated := Some True,
                                       ep_trailing_high := Some 13500\<rparr>)"
    by (simp add: stop_loss_signal_def scenario_config_def scenario_tracking_def
        profitable_position_def get_or_def Let_def)
  have act: "get_or (ep_trailing_activated
                (profitable_position\<lparr>ep_trailing_activated := Some True,
                                       ep_trailing_high := Some 13500\<rparr>)) False"
    by (simp add: get_or_def)
  have hi: "ep_trailing_high
                (profitable_position\<lparr>ep_trailing_activated := Some True,
                                       ep_trailing_high := Some 13500\<rparr>) = Some 13500"
    by simp
  have cur: "ep_current_price
                (profitable_position\<lparr>ep_trailing_activated := Some True,
                                       ep_trailing_high := Some 13500\<rparr>) = 13700"
    by (simp add: profitable_position_def)
  from v11 ns' act hi
  have "ep_trailing_high
          (snd (engine_check_sell_conditions (Some scenario_config) (Some scenario_tracking)
                  (profitable_position\<lparr>ep_trailing_activated := Some True,
                                         ep_trailing_high := Some 13500\<rparr>)))
          = Some (max 13500 (ep_current_price
                (profitable_position\<lparr>ep_trailing_activated := Some True,
                                       ep_trailing_high := Some 13500\<rparr>)))"
    by blast
  hence g: "ep_trailing_high
          (snd (engine_check_sell_conditions (Some scenario_config) (Some scenario_tracking)
                  (profitable_position\<lparr>ep_trailing_activated := Some True,
                                         ep_trailing_high := Some 13500\<rparr>)))
          = Some 13700"
    unfolding cur by simp
  from n a b c ns d t e f g show ?thesis by blast
qed

end
